theory Spec2Isabelle
  imports Main "HOL-Library.Sublist"
begin

section \<open>Go string primitives used by the program\<close>

text \<open>
  Go strings are byte sequences; \<open>len\<close> counts bytes and slicing cuts at byte offsets.
  They are modelled as \<^typ>\<open>string\<close> (a list of 8-bit characters).
\<close>

definition nl :: char where
  "nl = CHR 0x0A"

definition colon :: char where
  "colon = CHR 0x3A"

text \<open>\<open>strings.Split(s, sep)\<close> for a one-byte separator: never returns an empty slice.\<close>

fun Split :: "string \<Rightarrow> char \<Rightarrow> string list" where
  "Split [] sep = [[]]"
| "Split (c # cs) sep =
     (if c = sep then [] # Split cs sep
      else (case Split cs sep of
              [] \<Rightarrow> [[c]]
            | p # ps \<Rightarrow> (c # p) # ps))"

text \<open>\<open>strings.Join(elems, sep)\<close> for a one-byte separator.\<close>

fun Join :: "string list \<Rightarrow> char \<Rightarrow> string" where
  "Join [] sep = []"
| "Join [x] sep = x"
| "Join (x # y # ys) sep = x @ sep # Join (y # ys) sep"

text \<open>\<open>strings.HasPrefix\<close>, \<open>strings.Contains\<close> (one-byte needle), \<open>strings.Count\<close>
  (one-byte needle), \<open>strings.TrimPrefix\<close> and \<open>strings.TrimSuffix\<close>.\<close>

definition HasPrefix :: "string \<Rightarrow> string \<Rightarrow> bool" where
  "HasPrefix s p = prefix p s"

definition Contains :: "string \<Rightarrow> char \<Rightarrow> bool" where
  "Contains s c = (c \<in> set s)"

definition Count :: "string \<Rightarrow> char \<Rightarrow> int" where
  "Count s c = int (length (filter (\<lambda>x. x = c) s))"

definition TrimPrefix :: "string \<Rightarrow> string \<Rightarrow> string" where
  "TrimPrefix s p = (if prefix p s then drop (length p) s else s)"

definition TrimSuffix :: "string \<Rightarrow> string \<Rightarrow> string" where
  "TrimSuffix s p = (if suffix p s then take (length s - length p) s else s)"

text \<open>
  \<open>strings.TrimSpace\<close> removes leading and trailing Unicode white space. In UTF-8 the
  white-space code points are the six ASCII bytes below and a few multi-byte sequences
  (U+0085, U+00A0, U+1680, U+2000 to U+200A, U+2028, U+2029, U+202F, U+205F, U+3000).
  \<open>spaceLen s\<close> is the byte length of a white-space code point at the start of \<open>s\<close>
  (or 0), \<open>spaceLenRev\<close> the same for the end of a reversed string.
\<close>

definition asciiSpace :: "char \<Rightarrow> bool" where
  "asciiSpace c = (c = CHR 0x09 \<or> c = CHR 0x0A \<or> c = CHR 0x0B \<or> c = CHR 0x0C
                   \<or> c = CHR 0x0D \<or> c = CHR 0x20)"

definition wideSpaces :: "string list" where
  "wideSpaces =
     [[CHR 0xC2, CHR 0x85], [CHR 0xC2, CHR 0xA0], [CHR 0xE1, CHR 0x9A, CHR 0x80],
      [CHR 0xE2, CHR 0x80, CHR 0x80], [CHR 0xE2, CHR 0x80, CHR 0x81],
      [CHR 0xE2, CHR 0x80, CHR 0x82], [CHR 0xE2, CHR 0x80, CHR 0x83],
      [CHR 0xE2, CHR 0x80, CHR 0x84], [CHR 0xE2, CHR 0x80, CHR 0x85],
      [CHR 0xE2, CHR 0x80, CHR 0x86], [CHR 0xE2, CHR 0x80, CHR 0x87],
      [CHR 0xE2, CHR 0x80, CHR 0x88], [CHR 0xE2, CHR 0x80, CHR 0x89],
      [CHR 0xE2, CHR 0x80, CHR 0x8A], [CHR 0xE2, CHR 0x80, CHR 0xA8],
      [CHR 0xE2, CHR 0x80, CHR 0xA9], [CHR 0xE2, CHR 0x80, CHR 0xAF],
      [CHR 0xE2, CHR 0x81, CHR 0x9F], [CHR 0xE3, CHR 0x80, CHR 0x80]]"

definition spaceLen :: "string \<Rightarrow> nat" where
  "spaceLen s =
     (case s of
        [] \<Rightarrow> 0
      | c # _ \<Rightarrow>
          if asciiSpace c then 1
          else (case filter (\<lambda>w. prefix w s) wideSpaces of
                  [] \<Rightarrow> 0
                | w # _ \<Rightarrow> length w))"

definition spaceLenRev :: "string \<Rightarrow> nat" where
  "spaceLenRev r =
     (case r of
        [] \<Rightarrow> 0
      | c # _ \<Rightarrow>
          if asciiSpace c then 1
          else (case filter (\<lambda>w. prefix (rev w) r) wideSpaces of
                  [] \<Rightarrow> 0
                | w # _ \<Rightarrow> length w))"

fun trimLeft :: "nat \<Rightarrow> string \<Rightarrow> string" where
  "trimLeft 0 s = s"
| "trimLeft (Suc n) s = (if spaceLen s = 0 then s else trimLeft n (drop (spaceLen s) s))"

fun trimRightRev :: "nat \<Rightarrow> string \<Rightarrow> string" where
  "trimRightRev 0 r = r"
| "trimRightRev (Suc n) r =
     (if spaceLenRev r = 0 then r else trimRightRev n (drop (spaceLenRev r) r))"

definition TrimSpace :: "string \<Rightarrow> string" where
  "TrimSpace s =
     (let l = trimLeft (length s) s in rev (trimRightRev (length l) (rev l)))"

section \<open>The front-matter splitter (\<open>SplitFrontmatterMarkdown\<close>)\<close>

text \<open>
  A Go panic is a value of \<open>panic\<close>; a function that can panic returns
  \<open>panic + result\<close>, with \<open>Inl\<close> for the panic.
\<close>

datatype panic =
    SliceBoundsOutOfRange
  | IndexOutOfRange
  | NilPointerDereference
  | InterfaceConversion

type_synonym frontmatter = "string \<rightharpoonup> string"

text \<open>
  The \<open>for i, line := range lines\<close> loop of lines 17 to 33. \<open>rest\<close> holds the lines
  from index \<open>i\<close> on. The slice \<open>lines[i+2:]\<close> panics when \<open>i + 2 > len(lines)\<close>,
  the index \<open>parts[1]\<close> when \<open>parts\<close> has fewer than two elements. When the loop ends
  without meeting a closing delimiter, control falls to line 38, which returns the
  whole content and the map filled so far.
\<close>

fun frontmatterLoop ::
  "string \<Rightarrow> string list \<Rightarrow> nat \<Rightarrow> string list \<Rightarrow> frontmatter \<Rightarrow> panic + string \<times> frontmatter"
where
  "frontmatterLoop content lines i [] fm = Inr (content, fm)"
| "frontmatterLoop content lines i (line # rest) fm =
     (if i = 0 then frontmatterLoop content lines (Suc i) rest fm
      else if HasPrefix line ''---'' then
        (if i + 2 \<le> length lines then Inr (Join (drop (i + 2) lines) nl, fm)
         else Inl SliceBoundsOutOfRange)
      else if Contains line colon then
        (let parts = Split line colon in
         if length parts < 2 then Inl IndexOutOfRange
         else
           let key = TrimSpace (parts ! 0);
               value = TrimSpace (parts ! 1)
           in frontmatterLoop content lines (Suc i) rest (fm(key \<mapsto> value)))
      else frontmatterLoop content lines (Suc i) rest fm)"

definition SplitFrontmatterMarkdown :: "string \<Rightarrow> panic + string \<times> frontmatter" where
  "SplitFrontmatterMarkdown content =
     (let lines = Split content nl in
      case lines of
        [] \<Rightarrow> Inl IndexOutOfRange
      | first # _ \<Rightarrow>
          if HasPrefix first ''---'' then frontmatterLoop content lines 0 lines Map.empty
          else Inr (content, Map.empty))"

section \<open>The terminal libraries at their boundary\<close>

subsection \<open>The bubbles viewport\<close>

text \<open>
  \<open>viewport.Model\<close> of the bubbles library, with the fields and methods the program
  uses: \<open>New\<close>, \<open>SetYOffset\<close>, \<open>SetContent\<close> and \<open>Sync\<close>, and the methods these
  call. \<open>vpLines\<close> is the library's private field \<open>lines\<close>. \<open>SetContent\<close> (through
  \<open>GotoBottom\<close>) and \<open>Sync\<close> take the visible lines as a slice of \<open>lines\<close>, and that
  slice expression can panic.
\<close>

record viewport_Model =
  Width :: int
  Height :: int
  YOffset :: int
  YPosition :: int
  HighPerformanceRendering :: bool
  vpLines :: "string list"

definition viewport_New :: "int \<Rightarrow> int \<Rightarrow> viewport_Model" where
  "viewport_New w h =
     \<lparr>Width = w, Height = h, YOffset = 0, YPosition = 0,
      HighPerformanceRendering = False, vpLines = []\<rparr>"

definition clamp :: "int \<Rightarrow> int \<Rightarrow> int \<Rightarrow> int" where
  "clamp v low high =
     (if high < low then min low (max high v) else min high (max low v))"

definition maxYOffset :: "viewport_Model \<Rightarrow> int" where
  "maxYOffset vp = max 0 (int (length (vpLines vp)) - Height vp)"

definition SetYOffset :: "int \<Rightarrow> viewport_Model \<Rightarrow> viewport_Model" where
  "SetYOffset n vp = vp\<lparr>YOffset := clamp n 0 (maxYOffset vp)\<rparr>"

text \<open>
  The slice expression \<open>xs[low:high]\<close> on a slice whose capacity is its length (as
  \<open>strings.Split\<close> returns it): a panic unless \<open>0 \<le> low \<le> high \<le> len(xs)\<close>.
\<close>

definition sliceLines :: "string list \<Rightarrow> int \<Rightarrow> int \<Rightarrow> panic + string list" where
  "sliceLines xs low high =
     (if 0 \<le> low \<and> low \<le> high \<and> high \<le> int (length xs)
      then Inr (take (nat (high - low)) (drop (nat low) xs))
      else Inl SliceBoundsOutOfRange)"

text \<open>
  \<open>visibleLines\<close>: the lines from the offset on that fit the height. With an offset
  greater than the number of lines, \<open>top\<close> is above \<open>bottom\<close> (which \<open>clamp\<close> holds at
  the number of lines) and the slice panics.
\<close>

definition visibleLines :: "viewport_Model \<Rightarrow> panic + string list" where
  "visibleLines vp =
     (if length (vpLines vp) > 0 then
        let top = max 0 (YOffset vp);
            bottom = clamp (YOffset vp + Height vp) top (int (length (vpLines vp)))
        in sliceLines (vpLines vp) top bottom
      else Inr [])"

text \<open>\<open>GotoBottom\<close> moves the offset to its maximum and returns the visible lines.\<close>

definition GotoBottom :: "viewport_Model \<Rightarrow> panic + viewport_Model \<times> string list" where
  "GotoBottom vp =
     (let vp = vp\<lparr>YOffset := maxYOffset vp\<rparr>
      in case visibleLines vp of
           Inl p \<Rightarrow> Inl p
         | Inr ls \<Rightarrow> Inr (vp, ls))"

text \<open>\<open>strings.ReplaceAll(s, "\r\n", "\n")\<close>, the first step of \<open>SetContent\<close>.\<close>

fun normalizeLineEndings :: "string \<Rightarrow> string" where
  "normalizeLineEndings (c # d # cs) =
     (if c = CHR 0x0D \<and> d = CHR 0x0A then CHR 0x0A # normalizeLineEndings cs
      else c # normalizeLineEndings (d # cs))"
| "normalizeLineEndings cs = cs"

definition SetContent :: "string \<Rightarrow> viewport_Model \<Rightarrow> panic + viewport_Model" where
  "SetContent s vp =
     (let vp1 = vp\<lparr>vpLines := Split (normalizeLineEndings s) nl\<rparr> in
      if YOffset vp1 > int (length (vpLines vp1)) - 1 then
        (case GotoBottom vp1 of
           Inl p \<Rightarrow> Inl p
         | Inr (vp2, ls) \<Rightarrow> Inr vp2)
      else Inr vp1)"

subsection \<open>Commands and messages of the event loop\<close>

text \<open>
  A \<open>tea.Cmd\<close> may be nil: it is a \<open>cmd option\<close>. \<open>SyncScrollArea vp\<close> is the command
  \<open>viewport.Sync\<close> builds from the visible lines and scroll area of \<open>vp\<close>; \<open>Batch\<close>
  keeps the commands given to \<open>tea.Batch\<close> in order; \<open>WidgetCmd\<close> is a command
  returned by a widget's own \<open>Update\<close>. \<open>Sync\<close> returns nil for a viewport without
  lines and otherwise takes the visible lines first, so it panics where they do.
\<close>

datatype cmd =
    Quit
  | SyncScrollArea viewport_Model
  | Batch "cmd option list"
  | WidgetCmd nat

definition Sync :: "viewport_Model \<Rightarrow> panic + cmd option" where
  "Sync vp =
     (if length (vpLines vp) = 0 then Inr None
      else case visibleLines vp of
             Inl p \<Rightarrow> Inl p
           | Inr ls \<Rightarrow> Inr (Some (SyncScrollArea vp)))"

text \<open>\<open>KeyMsg k\<close> carries \<open>msg.String()\<close>; \<open>OtherMsg\<close> is any message the switch ignores.\<close>

datatype msg =
    WindowSizeMsg int int
  | KeyMsg string
  | OtherMsg

subsection \<open>The list widget\<close>

record post =
  title :: string
  path :: string
  desc :: string
  md :: string

text \<open>\<open>list.Model\<close>: its items, the index of the cursor and its size.\<close>

record list_Model =
  items :: "post list"
  index :: nat
  listWidth :: int
  listHeight :: int

definition SelectedItem :: "list_Model \<Rightarrow> post option" where
  "SelectedItem l = (if index l < length (items l) then Some (items l ! index l) else None)"

subsection \<open>Styling, markdown conversion and the file store\<close>

text \<open>
  lipgloss positions: \<open>Left\<close> and \<open>Top\<close> are 0.0, \<open>Center\<close> is 0.5, \<open>Right\<close> and
  \<open>Bottom\<close> are 1.0.
\<close>

datatype position = PosStart | PosCenter | PosEnd

text \<open>
  What the program takes from glamour, lipgloss, the widgets and the operating system.
  A glamour renderer is known by its word-wrap width; \<open>glamourRender w text\<close> is the pair
  (output, error reported) of \<open>Render\<close> on the renderer of width \<open>w\<close>, and
  \<open>newTermRendererOk w\<close> says whether \<open>glamour.NewTermRenderer\<close> succeeds.
  \<open>gapRender w h\<close> is \<open>lipgloss.NewStyle().Width(w).Height(h).Render()\<close>,
  \<open>cellRender w p s\<close> is \<open>NewStyle().Width(w).Padding(0, p).Render(s)\<close>,
  \<open>tableRender w cells\<close> the bordered one-row table of width \<open>w\<close>,
  \<open>boxRender w h s\<close> is \<open>NewStyle().Width(w).Height(h).Align(Center, Top).SetString(s).Render()\<close>,
  \<open>ReadFile\<close> is \<open>os.ReadFile\<close> (\<open>None\<close> for an error).
\<close>

record ext =
  newTermRendererOk :: "int \<Rightarrow> bool"
  glamourRender :: "int \<Rightarrow> string \<Rightarrow> string \<times> bool"
  JoinVertical :: "position \<Rightarrow> string list \<Rightarrow> string"
  JoinHorizontal :: "position \<Rightarrow> string list \<Rightarrow> string"
  gapRender :: "int \<Rightarrow> int \<Rightarrow> string"
  Place :: "int \<Rightarrow> int \<Rightarrow> position \<Rightarrow> position \<Rightarrow> string \<Rightarrow> string"
  ApplyNormal :: "string \<Rightarrow> string"
  ApplySubtle :: "string \<Rightarrow> string"
  ApplyMuted :: "string \<Rightarrow> string"
  ApplyHighlight :: "string \<Rightarrow> string"
  cellRender :: "int \<Rightarrow> int \<Rightarrow> string \<Rightarrow> string"
  tableRender :: "int \<Rightarrow> string list \<Rightarrow> string"
  boxRender :: "int \<Rightarrow> int \<Rightarrow> string \<Rightarrow> string"
  viewportUpdate :: "viewport_Model \<Rightarrow> string \<Rightarrow> viewport_Model \<times> cmd option"
  listUpdate :: "list_Model \<Rightarrow> string \<Rightarrow> list_Model \<times> cmd option"
  ReadFile :: "string \<Rightarrow> string option"

section \<open>Constants and state of the program\<close>

text \<open>
  Go's \<open>int\<close> has 64 bits here. Widths and heights are terminal dimensions (16 bits
  from \<open>term.GetSize\<close>, 32 bits from a window-change request), and the program only
  takes minima of them, halves them and subtracts small constants, so no operation can
  wrap: they are modelled as \<^typ>\<open>int\<close>.
\<close>

definition maxWidth :: int where
  "maxWidth = 80"

definition useHighPerformanceRenderer :: bool where
  "useHighPerformanceRenderer = True"

definition headerHeight :: int where
  "headerHeight = 4"

definition footerHeight :: int where
  "footerHeight = 4"

definition top :: string where
  "top = Join
     [''# hey, i'm max'',
      '''',
      ''I study computer science and philosophy at Suffolk University, and design and develop web tools in my spare time. I can't comment on their usefulness, but they're hopefully a little cool.'',
      '''',
      ''## Recent Projects''] nl"

definition prog1 :: string where
  "prog1 = Join
     [''### Hypersearch'',
      '''',
      ''Hypersearch is a Chromium extension that provides power-user search tools. Slim down and streamline Google search result pages by filtering out spam results and blocking unnecessary info cards.''] nl"

definition prog2 :: string where
  "prog2 = Join
     [''### asciish'',
      '''',
      ''Asciish is a Vite/Rollup extension that provides build-time Unicode injection using shortcodes. This helps to keep source code UTF-8 compliant while allowing for the use of complex Unicode characters on a webpage.''] nl"

definition prog3 :: string where
  "prog3 = Join
     [''### escape-time'',
      '''',
      ''Escape time is a small WebGL fractal explorer thrown together over a weekend for a Suffolk University Math Society presentation. It supports a few different fractals and was mostly a WebGL learning experience.''] nl"

definition prog4 :: string where
  "prog4 = Join
     [''### Clippy'',
      '''',
      ''Clippy.mov is a web-based video editor built using FFmpeg.wasm. I stopped developing it after the new school semester started, and recently came back to it. It's in active development.''] nl"

definition bot :: string where
  "bot = Join
     [''## Want to get in touch?'',
      '''',
      ''Thanks, that's awesome! :D'',
      ''''] nl"

text \<open>The session state \<open>model\<close> of the first program (lines 28 to 35).\<close>

record model =
  loaded :: bool
  viewport :: viewport_Model
  fitWidth :: int
  cmdWidth :: int
  cmdHeight :: int

text \<open>
  The package-level variables. \<open>glamourRenderer\<close> is nil (\<open>None\<close>) until a renderer is
  stored. \<open>renderCalls\<close> is not a variable of the program: it records, in order, every
  call of glamour's \<open>Render\<close> as (wrap width of the renderer, text), so that claims
  about conversions made or avoided can be stated.
\<close>

record globals =
  glamourRenderer :: "int option"
  lastFitWidth :: int
  renderCalls :: "(int \<times> string) list"

record globalsA = globals +
  projRender1 :: string
  projRender2 :: string
  projRender3 :: string
  projRender4 :: string
  flex :: string

section \<open>The first program (\<open>main.go\<close>, lines 1 to 382)\<close>

text \<open>
  \<open>teaHandler\<close> (lines 141 to 158), as a function of the size \<open>term.GetSize\<close> reports.
  The program options it also returns do not depend on the state and are left out.
\<close>

definition teaHandler :: "int \<Rightarrow> int \<Rightarrow> model" where
  "teaHandler physWidth physHeight =
     (let computedWidth = min physWidth maxWidth;
          vp = viewport_New physWidth (physHeight - headerHeight - footerHeight);
          vp = vp\<lparr>HighPerformanceRendering := useHighPerformanceRenderer\<rparr>
      in \<lparr>loaded = False, viewport = vp, fitWidth = computedWidth,
          cmdWidth = 0, cmdHeight = 0\<rparr>)"

text \<open>A call of \<open>Render\<close> on the renderer of width \<open>r\<close>, recorded in \<open>renderCalls\<close>.\<close>

definition Render ::
  "ext \<Rightarrow> int \<Rightarrow> string \<Rightarrow> 'a globals_scheme \<Rightarrow> (string \<times> bool) \<times> 'a globals_scheme"
where
  "Render e r text g = (glamourRender e r text, g\<lparr>renderCalls := renderCalls g @ [(r, text)]\<rparr>)"

text \<open>
  The two-column branch of \<open>RerenderContent\<close> (lines 217 to 228), from the four blocks
  as they stand after line 209. Line 218 assigns \<open>projRender3\<close> from \<open>projRender2\<close>.
\<close>

record dual =
  dualRender3 :: string
  dualRender4 :: string
  rowAHeight :: int
  rowBHeight :: int
  RowA :: string
  RowB :: string

definition dualColumns :: "ext \<Rightarrow> string \<Rightarrow> string \<Rightarrow> string \<Rightarrow> string \<Rightarrow> dual" where
  "dualColumns e p1 p2 p3 p4 =
     (let p3 = TrimSuffix p2 [nl];
          p4 = TrimSuffix p4 [nl];
          a = max (Count p1 nl) (Count p2 nl);
          gapA = gapRender e 4 a;
          b = max (Count p3 nl) (Count p4 nl);
          gapB = gapRender e 4 b
      in \<lparr>dualRender3 = p3, dualRender4 = p4, rowAHeight = a, rowBHeight = b,
          RowA = JoinHorizontal e PosStart [p1, gapA, p2],
          RowB = JoinHorizontal e PosStart [p3, gapB, p4]\<rparr>)"

text \<open>
  The \<open>needsNewTerm\<close> block of \<open>RerenderContent\<close> (lines 176 to 231) for the fitted
  width \<open>fw\<close>. The first component is \<open>True\<close> when a renderer could not be made and
  the function returns \<open>tea.Quit\<close> from inside the block.
\<close>

definition rerenderProjects :: "ext \<Rightarrow> globalsA \<Rightarrow> int \<Rightarrow> bool \<times> globalsA" where
  "rerenderProjects e g fw =
     (if \<not> newTermRendererOk e fw then (True, g)
      else
        let g = g\<lparr>glamourRenderer := Some fw\<rparr> in
        if fw > 76 \<and> \<not> newTermRendererOk e (fw div 2 - 4) then (True, g)
        else
          let renderer = (if fw > 76 then fw div 2 - 4 else fw);
              ((p1, _), g) = Render e renderer prog1 g;
              ((p2, _), g) = Render e renderer prog2 g;
              ((p3, _), g) = Render e renderer prog3 g;
              ((p4, _), g) = Render e renderer prog4 g;
              p1 = TrimSuffix (TrimPrefix p1 [nl]) [nl];
              p2 = TrimSuffix (TrimPrefix p2 [nl]) [nl];
              p3 = TrimSuffix (TrimPrefix p3 [nl]) [nl];
              p4 = TrimSuffix (TrimPrefix p4 [nl]) [nl]
          in if fw < 80 then
               let p4 = TrimSuffix p4 [nl] in
               (False, g\<lparr>projRender1 := p1, projRender2 := p2, projRender3 := p3,
                          projRender4 := p4,
                          flex := JoinVertical e PosStart [p1, p2, p3, p4]\<rparr>)
             else
               let d = dualColumns e p1 p2 p3 p4 in
               (False, g\<lparr>projRender1 := p1, projRender2 := p2,
                          projRender3 := dualRender3 d, projRender4 := dualRender4 d,
                          flex := JoinVertical e PosStart [RowA d, RowB d]\<rparr>))"

text \<open>The bullet U+2022 in UTF-8, and a contact line (lines 240 to 242).\<close>

definition bullet :: string where
  "bullet = [CHR 0xE2, CHR 0x80, CHR 0xA2]"

definition contact :: "ext \<Rightarrow> string \<Rightarrow> string \<Rightarrow> string" where
  "contact e label val =
     Place e 8 1 PosStart PosCenter (ApplySubtle e label) @ ApplyMuted e bullet @ '' ''
       @ ApplyNormal e val @ [nl]"

text \<open>
  \<open>RerenderContent\<close> (lines 165 to 257). Calling \<open>Render\<close> on a nil
  \<open>glamourRenderer\<close> is a nil-pointer panic; \<open>SetContent\<close> and \<open>viewport.Sync\<close> can
  panic in the viewport library.
\<close>

definition RerenderContent ::
  "ext \<Rightarrow> globalsA \<Rightarrow> model \<Rightarrow> bool \<Rightarrow> bool \<Rightarrow> panic + model \<times> globalsA \<times> cmd option"
where
  "RerenderContent e g m needsNewFile needsNewTerm =
     (let m = m\<lparr>viewport := (viewport m)\<lparr>Height := cmdHeight m - headerHeight - footerHeight\<rparr>\<rparr>;
          (quit, g) = (if needsNewTerm then rerenderProjects e g (fitWidth m) else (False, g))
      in if quit then Inr (m, g, Some Quit)
         else
           case glamourRenderer g of
             None \<Rightarrow> Inl NilPointerDereference
           | Some r \<Rightarrow>
               let ((topRender, _), g) = Render e r top g;
                   ((botRender, _), g) = Render e r bot g;
                   topRender = TrimPrefix topRender [nl];
                   botRender = TrimSuffix botRender [nl];
                   contactA = contact e ''email'' ''max@mmyron.com'';
                   contactB = contact e ''twitter'' ''@mmorenthal'';
                   contactC = contact e ''github'' ''maxmmyron'';
                   cmb = JoinVertical e PosStart
                           [topRender, flex g, botRender, contactA, contactB, contactC]
               in if useHighPerformanceRenderer then
                    let container = Place e (cmdWidth m) (Height (viewport m)) PosCenter PosStart cmb
                    in case SetContent container (viewport m) of
                         Inl p \<Rightarrow> Inl p
                       | Inr vp \<Rightarrow>
                           let m = m\<lparr>viewport := vp\<rparr>
                           in case Sync (viewport m) of
                                Inl p \<Rightarrow> Inl p
                              | Inr c \<Rightarrow> Inr (m, g, c)
                  else
                    case SetContent cmb (viewport m) of
                      Inl p \<Rightarrow> Inl p
                    | Inr vp \<Rightarrow> Inr (m\<lparr>viewport := vp\<rparr>, g, None))"

text \<open>
  The end of both \<open>Update\<close> functions (lines 320 to 328 and 739 to 747): a non-nil
  \<open>cmd\<close> is appended to \<open>cmds\<close>, and a non-empty \<open>cmds\<close> is batched.
\<close>

definition finish :: "'m \<Rightarrow> 'g \<Rightarrow> cmd option \<Rightarrow> cmd option list \<Rightarrow> 'm \<times> 'g \<times> cmd option" where
  "finish m g c cmds =
     (let cmds = (if c \<noteq> None then cmds @ [c] else cmds)
      in if length cmds > 0 then (m, g, Some (Batch cmds)) else (m, g, None))"

text \<open>\<open>Update\<close> (lines 265 to 329).\<close>

definition Update ::
  "ext \<Rightarrow> globalsA \<Rightarrow> model \<Rightarrow> msg \<Rightarrow> panic + model \<times> globalsA \<times> cmd option"
where
  "Update e g m message =
     (case message of
        WindowSizeMsg w h \<Rightarrow>
          (let g = g\<lparr>lastFitWidth := fitWidth m\<rparr>;
               m = m\<lparr>fitWidth := min w maxWidth\<rparr>;
               m = (if fitWidth m < 80 then m\<lparr>fitWidth := fitWidth m - 4\<rparr> else m);
               m = m\<lparr>viewport := (viewport m)\<lparr>Height := h - headerHeight - footerHeight\<rparr>\<rparr>;
               m = m\<lparr>cmdWidth := w\<rparr>;
               m = m\<lparr>cmdHeight := h\<rparr>
           in case (if \<not> loaded m then
                      (let m = m\<lparr>viewport := (viewport m)\<lparr>HighPerformanceRendering := useHighPerformanceRenderer\<rparr>\<rparr>;
                           m = m\<lparr>loaded := True\<rparr>
                       in case RerenderContent e g m True True of
                            Inl p \<Rightarrow> Inl p
                          | Inr (m, g, c) \<Rightarrow> Inr (m, g, [c]))
                    else Inr (m, g, [])) of
                Inl p \<Rightarrow> Inl p
              | Inr (m, g, cmds) \<Rightarrow>
                  (case (if lastFitWidth g \<noteq> fitWidth m then RerenderContent e g m False True
                         else RerenderContent e g m False False) of
                     Inl p \<Rightarrow> Inl p
                   | Inr (m, g, c) \<Rightarrow>
                       let cmds = cmds @ [c] in
                       if useHighPerformanceRenderer then
                         let m = m\<lparr>viewport := (viewport m)\<lparr>YPosition := headerHeight + 1\<rparr>\<rparr>
                         in case Sync (viewport m) of
                              Inl p \<Rightarrow> Inl p
                            | Inr s \<Rightarrow> Inr (m, g, Some (Batch (cmds @ [s])))
                       else Inr (m, g, Some (Batch cmds))))
      | KeyMsg k \<Rightarrow>
          if k = ''q'' \<or> k = ''ctrl+c'' then Inr (m, g, Some Quit)
          else
            let (vp, c) = viewportUpdate e (viewport m) k;
                m = m\<lparr>viewport := vp\<rparr>
            in Inr (finish m g c [])
      | OtherMsg \<Rightarrow> Inr (finish m g None []))"

text \<open>The slice expression \<open>s[:n]\<close>: a panic unless \<open>0 \<le> n \<le> len(s)\<close>.\<close>

definition sliceTo :: "string \<Rightarrow> int \<Rightarrow> panic + string" where
  "sliceTo s n =
     (if 0 \<le> n \<and> n \<le> int (length s) then Inr (take (nat n) s)
      else Inl SliceBoundsOutOfRange)"

text \<open>
  The truncation step shared by both \<open>HeaderView\<close> functions (lines 358 to 360 and
  791 to 793) for the column budget \<open>mainContentWidth\<close>.
\<close>

definition truncateHeader :: "string \<Rightarrow> int \<Rightarrow> panic + string" where
  "truncateHeader content mainContentWidth =
     (if int (length content) > mainContentWidth then
        (case sliceTo content (mainContentWidth - 4) of
           Inl p \<Rightarrow> Inl p
         | Inr c \<Rightarrow> Inr (c @ ''...''))
      else Inr content)"

text \<open>\<open>HeaderView\<close> (lines 345 to 370).\<close>

definition HeaderView :: "ext \<Rightarrow> model \<Rightarrow> panic + string" where
  "HeaderView e m =
     (let altLinkWidth = 0;
          linkPadding = 2;
          content = ApplyNormal e ''mmyron.com/'';
          mainWidth = fitWidth m - altLinkWidth;
          mainContentWidth = mainWidth - 2 - 2 * linkPadding
      in case truncateHeader content mainContentWidth of
           Inl p \<Rightarrow> Inl p
         | Inr content \<Rightarrow>
             Inr (boxRender e (cmdWidth m) headerHeight
                    (tableRender e (fitWidth m)
                       [cellRender e mainContentWidth linkPadding content])))"

section \<open>The second program (\<open>main.go\<close>, lines 384 to 816)\<close>

text \<open>
  Its \<open>model\<close> (lines 411 to 421) has three more fields: the current path, the loaded
  post and the list of posts.
\<close>

record model2 = model +
  currentPath :: string
  content :: string
  posts :: list_Model

text \<open>
  \<open>Rerender\<close> (lines 576 to 644). The renderer it uses is the one it has just stored,
  so it cannot meet a nil renderer; \<open>SetContent\<close> and \<open>viewport.Sync\<close> can panic in
  the viewport library.
\<close>

definition Rerender ::
  "ext \<Rightarrow> globals \<Rightarrow> model2 \<Rightarrow> bool \<Rightarrow> panic + model2 \<times> globals \<times> cmd option"
where
  "Rerender e g m needsNewFile =
     (if currentPath m = ''/posts'' then
        let m = m\<lparr>viewport := SetYOffset 0 (viewport m)\<rparr>;
            m = m\<lparr>viewport := (viewport m)\<lparr>Width := 0\<rparr>\<rparr>;
            m = m\<lparr>viewport := (viewport m)\<lparr>Height := 0\<rparr>\<rparr>
        in case SetContent [] (viewport m) of
             Inl p \<Rightarrow> Inl p
           | Inr vp \<Rightarrow>
               let m = m\<lparr>viewport := vp\<rparr>
               in if useHighPerformanceRenderer then
                    (case Sync (viewport m) of
                       Inl p \<Rightarrow> Inl p
                     | Inr c \<Rightarrow> Inr (m, g, c))
                  else Inr (m, g, None)
      else
        let m = m\<lparr>viewport := (viewport m)\<lparr>Height := cmdHeight m - headerHeight - footerHeight\<rparr>\<rparr>
        in if \<not> newTermRendererOk e (fitWidth m) then Inr (m, g, Some Quit)
           else
             let g = g\<lparr>glamourRenderer := Some (fitWidth m)\<rparr> in
             case (if needsNewFile then
                     (case ReadFile e (''fs'' @ currentPath m @ ''.md'') of
                        None \<Rightarrow> None
                      | Some file \<Rightarrow>
                          let m = m\<lparr>content := file\<rparr>
                          in Some (m\<lparr>viewport := SetYOffset 0 (viewport m)\<rparr>))
                   else Some m) of
               None \<Rightarrow> Inr (m, g, Some Quit)
             | Some m \<Rightarrow>
                 let ((render, err), g) = Render e (fitWidth m) (content m) g in
                 if err then Inr (m, g, Some Quit)
                 else if useHighPerformanceRenderer then
                   let container = Place e (cmdWidth m) (Height (viewport m)) PosCenter PosStart render
                   in case SetContent container (viewport m) of
                        Inl p \<Rightarrow> Inl p
                      | Inr vp \<Rightarrow>
                          let m = m\<lparr>viewport := vp\<rparr>
                          in case Sync (viewport m) of
                               Inl p \<Rightarrow> Inl p
                             | Inr c \<Rightarrow> Inr (m, g, c)
                 else
                   case SetContent render (viewport m) of
                     Inl p \<Rightarrow> Inl p
                   | Inr vp \<Rightarrow> Inr (m\<lparr>viewport := vp\<rparr>, g, None))"

text \<open>
  The pattern of the key branches of \<open>Update\<close> (lines 706 to 709, 715 to 718 and 725
  to 728): \<open>Rerender\<close>, then the command is appended when it is not nil; the function's
  end (\<open>finish\<close>) appends it once more.
\<close>

definition rerenderKey ::
  "ext \<Rightarrow> globals \<Rightarrow> model2 \<Rightarrow> bool \<Rightarrow> panic + model2 \<times> globals \<times> cmd option"
where
  "rerenderKey e g m needsNewFile =
     (case Rerender e g m needsNewFile of
        Inl p \<Rightarrow> Inl p
      | Inr (m, g, c) \<Rightarrow>
          let cmds = (if c \<noteq> None then [c] else [])
          in Inr (finish m g c cmds))"

text \<open>
  \<open>Update\<close> of the second program (lines 652 to 748). The type assertion
  \<open>m.posts.SelectedItem().(post)\<close> panics when no item is selected.
\<close>

definition Update2 ::
  "ext \<Rightarrow> globals \<Rightarrow> model2 \<Rightarrow> msg \<Rightarrow> panic + model2 \<times> globals \<times> cmd option"
where
  "Update2 e g m message =
     (case message of
        WindowSizeMsg w h \<Rightarrow>
          (let g = g\<lparr>lastFitWidth := fitWidth m\<rparr>;
               m = m\<lparr>fitWidth := min w maxWidth\<rparr>;
               m = (if currentPath m \<noteq> ''/posts''
                    then m\<lparr>viewport := (viewport m)\<lparr>Height := h - headerHeight - footerHeight\<rparr>\<rparr>
                    else m);
               m = m\<lparr>cmdWidth := w\<rparr>;
               m = m\<lparr>cmdHeight := h\<rparr>;
               m = m\<lparr>posts := (posts m)\<lparr>listWidth := fitWidth m\<rparr>\<rparr>;
               m = m\<lparr>posts := (posts m)\<lparr>listHeight := h - headerHeight - footerHeight\<rparr>\<rparr>
           in case (if \<not> loaded m then
                      (let m = m\<lparr>viewport := (viewport m)\<lparr>HighPerformanceRendering := useHighPerformanceRenderer\<rparr>\<rparr>;
                           m = m\<lparr>loaded := True\<rparr>
                       in case Rerender e g m True of
                            Inl p \<Rightarrow> Inl p
                          | Inr (m, g, c) \<Rightarrow> Inr (m, g, [c]))
                    else Inr (m, g, [])) of
                Inl p \<Rightarrow> Inl p
              | Inr (m, g, cmds) \<Rightarrow>
                  (case (if lastFitWidth g \<noteq> fitWidth m then
                           (case Rerender e g m False of
                              Inl p \<Rightarrow> Inl p
                            | Inr (m, g, c) \<Rightarrow> Inr (m, g, cmds @ [c]))
                         else Inr (m, g, cmds)) of
                     Inl p \<Rightarrow> Inl p
                   | Inr (m, g, cmds) \<Rightarrow>
                       if useHighPerformanceRenderer then
                         let m = m\<lparr>viewport := (viewport m)\<lparr>YPosition := headerHeight + 1\<rparr>\<rparr>
                         in case Sync (viewport m) of
                              Inl p \<Rightarrow> Inl p
                            | Inr s \<Rightarrow> Inr (m, g, Some (Batch (cmds @ [s])))
                       else Inr (m, g, Some (Batch cmds))))
      | KeyMsg k \<Rightarrow>
          if k = ''q'' then Inr (m, g, Some Quit)
          else if k = ''p'' then
            (if currentPath m = ''/root''
             then rerenderKey e g (m\<lparr>currentPath := ''/posts''\<rparr>) False
             else Inr (finish m g None []))
          else if k = ''b'' then
            (if currentPath m \<noteq> ''/root''
             then rerenderKey e g (m\<lparr>currentPath := ''/root''\<rparr>) True
             else Inr (finish m g None []))
          else if k = ''enter'' then
            (if currentPath m = ''/posts'' then
               (case SelectedItem (posts m) of
                  None \<Rightarrow> Inl InterfaceConversion
                | Some p \<Rightarrow>
                    let newPath = path p
                    in rerenderKey e g (m\<lparr>currentPath := newPath\<rparr>) True)
             else Inr (finish m g None []))
          else if currentPath m \<noteq> ''/posts'' then
            (let (vp, c) = viewportUpdate e (viewport m) k
             in Inr (finish (m\<lparr>viewport := vp\<rparr>) g c []))
          else
            (let (l, c) = listUpdate e (posts m) k
             in Inr (finish (m\<lparr>posts := l\<rparr>) g c []))
      | OtherMsg \<Rightarrow> Inr (finish m g None []))"

text \<open>\<open>HeaderView\<close> of the second program (lines 770 to 804).\<close>

definition HeaderView2 :: "ext \<Rightarrow> model2 \<Rightarrow> panic + string" where
  "HeaderView2 e m =
     (let altLinkWidth = 11;
          linkPadding = 2;
          content = currentPath m;
          sideContent = ApplyHighlight e ''p'' @ '' '' @ ApplySubtle e ''posts'';
          (content, sideContent) =
             (if content \<noteq> ''/root''
              then (content, ApplyHighlight e ''b'' @ '' '' @ ApplySubtle e ''back'')
              else (''/'', sideContent));
          content = ApplyNormal e (''mmyron.com'' @ content);
          mainWidth = fitWidth m - altLinkWidth;
          mainContentWidth = mainWidth - 2 - 2 * linkPadding
      in case truncateHeader content mainContentWidth of
           Inl p \<Rightarrow> Inl p
         | Inr content \<Rightarrow>
             Inr (boxRender e (cmdWidth m) headerHeight
                    (tableRender e (fitWidth m)
                       [cellRender e mainContentWidth linkPadding content,
                        cellRender e altLinkWidth linkPadding sideContent])))"

section \<open>A plain terminal for concrete runs\<close>

text \<open>
  An instance of the boundary used to run the definitions on concrete inputs: no
  colours (the styles return their text), markdown conversion indents each call's text
  by nothing and reports no error, joins put a line break between their parts, and
  the file store holds the one post of the repository under the path the program
  asks for when the current path is \<open>/posts/gradients\<close>.
\<close>

definition plainRender :: "int \<Rightarrow> string \<Rightarrow> string \<times> bool" where
  "plainRender w text = (nl # text @ [nl], False)"

definition plainExt :: ext where
  "plainExt =
     \<lparr>newTermRendererOk = (\<lambda>w. True),
      glamourRender = plainRender,
      JoinVertical = (\<lambda>p xs. Join xs nl),
      JoinHorizontal = (\<lambda>p xs. concat xs),
      gapRender = (\<lambda>w h. replicate (nat w) (CHR 0x20)),
      Place = (\<lambda>w h hp vp s. s),
      ApplyNormal = (\<lambda>s. s),
      ApplySubtle = (\<lambda>s. s),
      ApplyMuted = (\<lambda>s. s),
      ApplyHighlight = (\<lambda>s. s),
      cellRender = (\<lambda>w p s. s),
      tableRender = (\<lambda>w cells. concat cells),
      boxRender = (\<lambda>w h s. s),
      viewportUpdate = (\<lambda>vp k. (vp, None)),
      listUpdate = (\<lambda>l k. (l, None)),
      ReadFile = (\<lambda>p. if p = ''fs/posts/gradients.md'' then Some ''# gradients'' else None)\<rparr>"

text \<open>
  The session as \<open>Update\<close> has it after lines 273 to 283 of a resize to \<open>w\<close> by
  \<open>h\<close>, and as lines 287 and 288 mark it loaded; the facts about the steps of a
  resize are stated with them.
\<close>

definition resized :: "model \<Rightarrow> int \<Rightarrow> int \<Rightarrow> model" where
  "resized m w h =
     (let m = m\<lparr>fitWidth := min w maxWidth\<rparr>;
          m = (if fitWidth m < 80 then m\<lparr>fitWidth := fitWidth m - 4\<rparr> else m);
          m = m\<lparr>viewport := (viewport m)\<lparr>Height := h - headerHeight - footerHeight\<rparr>\<rparr>;
          m = m\<lparr>cmdWidth := w\<rparr>;
          m = m\<lparr>cmdHeight := h\<rparr>
      in m)"

definition markLoaded :: "model \<Rightarrow> model" where
  "markLoaded m =
     (let m = m\<lparr>viewport := (viewport m)\<lparr>HighPerformanceRendering := useHighPerformanceRenderer\<rparr>\<rparr>;
          m = m\<lparr>loaded := True\<rparr>
      in m)"

text \<open>The first step of a resize (lines 286 to 291): an unloaded session is loaded.\<close>

definition loadStep ::
  "ext \<Rightarrow> globalsA \<Rightarrow> model \<Rightarrow> panic + model \<times> globalsA \<times> cmd option list"
where
  "loadStep e g m =
     (if \<not> loaded m then
        (case RerenderContent e g (markLoaded m) True True of
           Inl p \<Rightarrow> Inl p
         | Inr (m, g, c) \<Rightarrow> Inr (m, g, [c]))
      else Inr (m, g, []))"

text \<open>
  A project block as it stands after line 209: the output of the renderer of width \<open>r\<close>
  with one leading and one trailing line break removed.
\<close>

definition block :: "ext \<Rightarrow> int \<Rightarrow> string \<Rightarrow> string" where
  "block e r text = TrimSuffix (TrimPrefix (fst (glamourRender e r text)) [nl]) [nl]"

text \<open>
  The package-level variables when the program starts (Go's zero values), for the first
  and for the second program.
\<close>

definition startGlobals :: globalsA where
  "startGlobals =
     \<lparr>glamourRenderer = None, lastFitWidth = 0, renderCalls = [],
      projRender1 = [], projRender2 = [], projRender3 = [], projRender4 = [], flex = []\<rparr>"

definition startGlobals2 :: globals where
  "startGlobals2 = \<lparr>glamourRenderer = None, lastFitWidth = 0, renderCalls = []\<rparr>"

text \<open>
  A session of the first program on a terminal of 90 by 30 after its first resize:
  loaded, fitted width 80, with the renderer of width 80 stored.
\<close>

definition wideSession :: model where
  "wideSession =
     \<lparr>loaded = True,
      viewport = \<lparr>Width = 90, Height = 22, YOffset = 0, YPosition = 5,
                  HighPerformanceRendering = True, vpLines = [''# hey'']\<rparr>,
      fitWidth = 80, cmdWidth = 90, cmdHeight = 30\<rparr>"

definition wideGlobals :: globalsA where
  "wideGlobals =
     \<lparr>glamourRenderer = Some 80, lastFitWidth = 80, renderCalls = [],
      projRender1 = ''one'', projRender2 = ''two'', projRender3 = ''two'',
      projRender4 = ''four'', flex = ''one two two four''\<rparr>"

text \<open>
  Sessions of the second program on a terminal of 100 by 30: at the root, and on the
  list with the repository's one post selected. \<open>teaHandler\<close> (line 558) gives a post
  the path \<open>"fs/posts" + file.Name()\<close>.
\<close>

definition gradientsPost :: post where
  "gradientsPost =
     \<lparr>title = ''Improving gradients in TailwindCSS'',
      path = ''fs/postsgradients.md'',
      desc = ''A deep dive into how we can improve gradient utility classes in TailwindCSS'',
      md = ''# gradients''\<rparr>"

definition rootSession :: model2 where
  "rootSession =
     \<lparr>loaded = True,
      viewport = \<lparr>Width = 100, Height = 22, YOffset = 3, YPosition = 5,
                  HighPerformanceRendering = True, vpLines = replicate 40 ''text''\<rparr>,
      fitWidth = 80, cmdWidth = 100, cmdHeight = 30,
      currentPath = ''/root'', content = ''# root'',
      posts = \<lparr>items = [gradientsPost], index = 0, listWidth = 80, listHeight = 22\<rparr>\<rparr>"

definition listSession :: model2 where
  "listSession =
     \<lparr>loaded = True,
      viewport = \<lparr>Width = 0, Height = 0, YOffset = 0, YPosition = 5,
                  HighPerformanceRendering = True, vpLines = [[]]\<rparr>,
      fitWidth = 80, cmdWidth = 100, cmdHeight = 30,
      currentPath = ''/posts'', content = ''# root'',
      posts = \<lparr>items = [gradientsPost], index = 0, listWidth = 80, listHeight = 22\<rparr>\<rparr>"

section \<open>Facts about the libraries' model\<close>

lemma Split_not_Nil: "Split s c \<noteq> []"
  by (induction s) (auto split: list.splits)

lemma block_plainExt: "block plainExt r s = s"
  by (simp add: block_def plainExt_def plainRender_def TrimPrefix_def TrimSuffix_def)

text \<open>
  The visible lines can be taken whenever the offset is not past the last line;
  \<open>GotoBottom\<close> returns on a height that is not negative and panics on a negative one.
\<close>

lemma visibleLines_in_range:
  "YOffset vp \<le> int (length (vpLines vp)) \<Longrightarrow> \<exists>ls. visibleLines vp = Inr ls"
  by (auto simp: visibleLines_def sliceLines_def clamp_def Let_def)

lemma visibleLines_past_end:
  "vpLines vp \<noteq> [] \<Longrightarrow> int (length (vpLines vp)) < YOffset vp
     \<Longrightarrow> visibleLines vp = Inl SliceBoundsOutOfRange"
  by (auto simp: visibleLines_def sliceLines_def clamp_def Let_def)

lemma visibleLines_YPosition: "visibleLines (vp\<lparr>YPosition := y\<rparr>) = visibleLines vp"
  by (simp add: visibleLines_def)

lemma GotoBottom_returns:
  "0 \<le> Height vp \<Longrightarrow> \<exists>ls. GotoBottom vp = Inr (vp\<lparr>YOffset := maxYOffset vp\<rparr>, ls)"
proof -
  assume h: "0 \<le> Height vp"
  have "YOffset (vp\<lparr>YOffset := maxYOffset vp\<rparr>)
          \<le> int (length (vpLines (vp\<lparr>YOffset := maxYOffset vp\<rparr>)))"
    using h by (simp add: maxYOffset_def)
  from visibleLines_in_range [OF this] show ?thesis
    by (auto simp: GotoBottom_def Let_def)
qed

lemma GotoBottom_panics:
  "Height vp < 0 \<Longrightarrow> vpLines vp \<noteq> [] \<Longrightarrow> GotoBottom vp = Inl SliceBoundsOutOfRange"
proof -
  assume h: "Height vp < 0" and n: "vpLines vp \<noteq> []"
  have "visibleLines (vp\<lparr>YOffset := maxYOffset vp\<rparr>) = Inl SliceBoundsOutOfRange"
    by (rule visibleLines_past_end) (use h n in \<open>simp_all add: maxYOffset_def\<close>)
  then show ?thesis
    by (simp add: GotoBottom_def Let_def)
qed

text \<open>
  \<open>SetContent\<close>: with the offset on a line of the new content nothing but the lines
  changes; with the offset past them it goes to the bottom, which panics exactly when
  the height is negative.
\<close>

lemma SetContent_on_content:
  "YOffset vp \<le> int (length (Split (normalizeLineEndings s) nl)) - 1
     \<Longrightarrow> SetContent s vp = Inr (vp\<lparr>vpLines := Split (normalizeLineEndings s) nl\<rparr>)"
  by (simp add: SetContent_def Let_def)

lemma SetContent_past_content:
  assumes "int (length (Split (normalizeLineEndings s) nl)) - 1 < YOffset vp"
    and "0 \<le> Height vp"
  shows "SetContent s vp
           = Inr (vp\<lparr>vpLines := Split (normalizeLineEndings s) nl,
                      YOffset := max 0 (int (length (Split (normalizeLineEndings s) nl)) - Height vp)\<rparr>)"
proof -
  let ?vp1 = "vp\<lparr>vpLines := Split (normalizeLineEndings s) nl\<rparr>"
  have "0 \<le> Height ?vp1"
    using assms(2) by simp
  from GotoBottom_returns [OF this] obtain ls where
    "GotoBottom ?vp1 = Inr (?vp1\<lparr>YOffset := maxYOffset ?vp1\<rparr>, ls)"
    by auto
  with assms(1) show ?thesis
    by (simp add: SetContent_def Let_def maxYOffset_def)
qed

lemma SetContent_panics:
  assumes "int (length (Split (normalizeLineEndings s) nl)) - 1 < YOffset vp"
    and "Height vp < 0"
  shows "SetContent s vp = Inl SliceBoundsOutOfRange"
proof -
  let ?vp1 = "vp\<lparr>vpLines := Split (normalizeLineEndings s) nl\<rparr>"
  have "GotoBottom ?vp1 = Inl SliceBoundsOutOfRange"
    by (rule GotoBottom_panics) (use assms(2) Split_not_Nil in simp_all)
  with assms(1) show ?thesis
    by (simp add: SetContent_def Let_def)
qed

lemma SetContent_Inl:
  assumes "SetContent s vp = Inl p"
  shows "p = SliceBoundsOutOfRange \<and> Height vp < 0 \<and> 0 < YOffset vp"
proof -
  let ?n = "int (length (Split (normalizeLineEndings s) nl))"
  have n: "1 \<le> ?n"
    using Split_not_Nil [of "normalizeLineEndings s" nl]
    by (cases "Split (normalizeLineEndings s) nl") simp_all
  show ?thesis
  proof (cases "YOffset vp \<le> ?n - 1")
    case True
    from SetContent_on_content [OF True] assms show ?thesis
      by simp
  next
    case False
    then have past: "?n - 1 < YOffset vp"
      by simp
    show ?thesis
    proof (cases "0 \<le> Height vp")
      case True
      from SetContent_past_content [OF past True] assms show ?thesis
        by simp
    next
      case False
      then have neg: "Height vp < 0"
        by simp
      from SetContent_panics [OF past neg] assms past n neg show ?thesis
        by simp
    qed
  qed
qed

lemma SetContent_Inr_all:
  assumes "SetContent s vp = Inr vp'"
  shows "Height vp' = Height vp \<and> Width vp' = Width vp \<and> YPosition vp' = YPosition vp
         \<and> HighPerformanceRendering vp' = HighPerformanceRendering vp
         \<and> vpLines vp' = Split (normalizeLineEndings s) nl
         \<and> YOffset vp' \<le> int (length (vpLines vp'))
         \<and> (Height vp < 0 \<longrightarrow> YOffset vp' = YOffset vp)"
proof -
  let ?n = "int (length (Split (normalizeLineEndings s) nl))"
  show ?thesis
  proof (cases "YOffset vp \<le> ?n - 1")
    case True
    from SetContent_on_content [OF True] assms True show ?thesis
      by auto
  next
    case False
    then have past: "?n - 1 < YOffset vp"
      by simp
    show ?thesis
    proof (cases "0 \<le> Height vp")
      case True
      from SetContent_past_content [OF past True] assms True show ?thesis
        by auto
    next
      case False
      then have neg: "Height vp < 0"
        by simp
      from SetContent_panics [OF past neg] assms show ?thesis
        by simp
    qed
  qed
qed

lemma SetContent_Inr:
  assumes "SetContent s vp = Inr vp'"
  shows "Height vp' = Height vp" and "Width vp' = Width vp" and "YPosition vp' = YPosition vp"
    and "HighPerformanceRendering vp' = HighPerformanceRendering vp"
    and "vpLines vp' = Split (normalizeLineEndings s) nl"
    and "YOffset vp' \<le> int (length (vpLines vp'))"
    and "Height vp < 0 \<Longrightarrow> YOffset vp' = YOffset vp"
  using SetContent_Inr_all [OF assms] by auto

lemma SetContent_returns:
  assumes "0 \<le> Height vp \<or> YOffset vp \<le> 0"
  shows "\<exists>vp'. SetContent s vp = Inr vp'"
proof (cases "SetContent s vp")
  case (Inl p)
  from SetContent_Inl [OF Inl] assms show ?thesis
    by auto
next
  case (Inr vp')
  then show ?thesis
    by simp
qed

lemma Sync_after_SetContent:
  assumes "SetContent s vp = Inr vp'"
  shows "Sync vp' = Inr (Some (SyncScrollArea vp'))"
    and "Sync (vp'\<lparr>YPosition := y\<rparr>) = Inr (Some (SyncScrollArea (vp'\<lparr>YPosition := y\<rparr>)))"
proof -
  note l = SetContent_Inr(5) [OF assms] and r = SetContent_Inr(6) [OF assms]
  from visibleLines_in_range [OF r] obtain ls where v: "visibleLines vp' = Inr ls"
    by auto
  from l have ne: "vpLines vp' \<noteq> []"
    by (simp add: Split_not_Nil)
  show "Sync vp' = Inr (Some (SyncScrollArea vp'))"
    using v ne by (simp add: Sync_def)
  show "Sync (vp'\<lparr>YPosition := y\<rparr>) = Inr (Some (SyncScrollArea (vp'\<lparr>YPosition := y\<rparr>)))"
    using v ne by (simp add: Sync_def visibleLines_YPosition)
qed

lemma Sync_in_range:
  assumes "vpLines vp \<noteq> []" and "YOffset vp \<le> int (length (vpLines vp))"
  shows "Sync vp = Inr (Some (SyncScrollArea vp))"
    and "Sync (vp\<lparr>YPosition := y\<rparr>) = Inr (Some (SyncScrollArea (vp\<lparr>YPosition := y\<rparr>)))"
proof -
  from visibleLines_in_range [OF assms(2)] obtain ls where v: "visibleLines vp = Inr ls"
    by auto
  show "Sync vp = Inr (Some (SyncScrollArea vp))"
    using v assms(1) by (simp add: Sync_def)
  show "Sync (vp\<lparr>YPosition := y\<rparr>) = Inr (Some (SyncScrollArea (vp\<lparr>YPosition := y\<rparr>)))"
    using v assms(1) by (simp add: Sync_def visibleLines_YPosition)
qed

text \<open>
  The synchronization of a viewport the program has not just filled: it panics exactly
  when the viewport has lines and its offset is past them.
\<close>

lemma Sync_Inl:
  "Sync vp = Inl p \<Longrightarrow> 0 < YOffset vp \<and> int (length (vpLines vp)) < YOffset vp"
proof -
  assume a: "Sync vp = Inl p"
  show ?thesis
  proof (cases "YOffset vp \<le> int (length (vpLines vp))")
    case True
    from visibleLines_in_range [OF True] a show ?thesis
      by (auto simp: Sync_def split: if_splits)
  next
    case False
    then show ?thesis
      by simp
  qed
qed

section \<open>The front-matter splitter\<close>

lemma Split_length_Contains: "c \<in> set s \<Longrightarrow> 2 \<le> length (Split s c)"
proof (induction s)
  case Nil
  then show ?case by simp
next
  case (Cons x xs)
  show ?case
  proof (cases "x = c")
    case True
    then show ?thesis
      using Split_not_Nil [of xs c] by (cases "Split xs c") auto
  next
    case False
    with Cons show ?thesis
      by (cases "Split xs c") auto
  qed
qed

text \<open>The only panic the splitter can raise is the slice \<open>lines[i+2:]\<close>.\<close>

lemma frontmatterLoop_panic:
  "frontmatterLoop src lines i rest fm = Inl p \<Longrightarrow> p = SliceBoundsOutOfRange"
proof (induction rest arbitrary: i fm)
  case Nil
  then show ?case by simp
next
  case (Cons line rest)
  then show ?case
    using Split_length_Contains [of colon line]
    by (auto simp: Let_def Contains_def split: if_splits)
qed

lemma SplitFrontmatterMarkdown_panic:
  "SplitFrontmatterMarkdown src = Inl p \<Longrightarrow> p = SliceBoundsOutOfRange"
  using Split_not_Nil [of src nl]
  by (auto simp: SplitFrontmatterMarkdown_def Let_def
           split: list.splits if_splits dest: frontmatterLoop_panic)

text \<open>
  C9. The splitter is not total: a file whose closing \<open>---\<close> is its last line (no
  line break after it) makes \<open>lines[i+2:]\<close> start one past the end of the slice, which
  panics. With the delimiter on the second-to-last line (the file ends with a line
  break) the slice is empty and the function returns.
\<close>

theorem SplitFrontmatterMarkdown_closing_delimiter_last:
  "SplitFrontmatterMarkdown (Join [''---'', ''title: x'', ''---''] nl) = Inl SliceBoundsOutOfRange
   \<and> (case SplitFrontmatterMarkdown (Join [''---'', ''title: x'', ''---'', ''''] nl) of
         Inl p \<Rightarrow> None
       | Inr (body, fm) \<Rightarrow> Some (body, fm ''title'')) = Some ('''', Some ''x'')"
proof
  show "SplitFrontmatterMarkdown (Join [''---'', ''title: x'', ''---''] nl) = Inl SliceBoundsOutOfRange"
    by (simp add: SplitFrontmatterMarkdown_def nl_def colon_def HasPrefix_def Contains_def)
next
  show "(case SplitFrontmatterMarkdown (Join [''---'', ''title: x'', ''---'', ''''] nl) of
           Inl p \<Rightarrow> None
         | Inr (body, fm) \<Rightarrow> Some (body, fm ''title'')) = Some ('''', Some ''x'')"
    by code_simp
qed

text \<open>
  C5. The line is split at every colon and only the text between the first and the
  second colon is kept as the value: for \<open>url: https://mmyron.com\<close> the map holds
  \<open>https\<close>, not the whole remainder of the line.
\<close>

theorem SplitFrontmatterMarkdown_value_cut_at_second_colon:
  "(case SplitFrontmatterMarkdown
           (Join [''---'', ''url: https://mmyron.com'', ''---'', '''', ''body''] nl) of
      Inl p \<Rightarrow> None
    | Inr (body, fm) \<Rightarrow> Some (body, fm ''url'')) = Some (''body'', Some ''https'')"
  by code_simp

section \<open>The two-column layout\<close>

lemma rowBHeight_dualColumns:
  "rowBHeight (dualColumns e p1 p2 p3 p4)
     = max (Count (TrimSuffix p2 [nl]) nl) (Count (TrimSuffix p4 [nl]) nl)"
  by (simp add: dualColumns_def Let_def)

lemma rowAHeight_dualColumns:
  "rowAHeight (dualColumns e p1 p2 p3 p4) = max (Count p1 nl) (Count p2 nl)"
  by (simp add: dualColumns_def Let_def)

lemma dualRender3_dualColumns:
  "dualRender3 (dualColumns e p1 p2 p3 p4) = TrimSuffix p2 [nl]"
  by (simp add: dualColumns_def Let_def)

section \<open>What the re-rendering functions leave in the state\<close>

lemma rerenderProjects_renderer:
  shows "\<not> fst (rerenderProjects e g fw)
           \<Longrightarrow> glamourRenderer (snd (rerenderProjects e g fw)) = Some fw"
    and "glamourRenderer g = Some r
           \<Longrightarrow> \<exists>y. glamourRenderer (snd (rerenderProjects e g fw)) = Some y"
    and "lastFitWidth (snd (rerenderProjects e g fw)) = lastFitWidth g"
  by (auto simp: rerenderProjects_def Let_def split_def Render_def split: if_splits)

text \<open>
  When \<open>RerenderContent\<close> returns, the viewport has the height of the stored terminal
  height less 8 and the other fields of the session are unchanged; a stored renderer
  stays stored; the viewport's offset is on or just after its lines, unless the
  function returned \<open>tea.Quit\<close> before it set the content.
\<close>

lemma RerenderContent_frame:
  assumes "RerenderContent e g m nf nt = Inr (m', g', c)"
  shows "Height (viewport m') = cmdHeight m - headerHeight - footerHeight"
    and "fitWidth m' = fitWidth m" and "cmdHeight m' = cmdHeight m"
    and "cmdWidth m' = cmdWidth m" and "loaded m' = loaded m"
    and "cmdHeight m - headerHeight - footerHeight < 0
           \<Longrightarrow> YOffset (viewport m') = YOffset (viewport m)"
    and "glamourRenderer g = Some r \<Longrightarrow> glamourRenderer g' \<noteq> None"
    and "lastFitWidth g' = lastFitWidth g"
    and "YOffset (viewport m') \<le> int (length (vpLines (viewport m')))
         \<or> (YOffset (viewport m') = YOffset (viewport m)
             \<and> vpLines (viewport m') = vpLines (viewport m))"
  using assms
  by (auto simp: RerenderContent_def Let_def split_def Render_def useHighPerformanceRenderer_def
           split: if_splits option.splits sum.splits
           dest: SetContent_Inr
           simp: rerenderProjects_renderer(3)
           intro: rerenderProjects_renderer(2))
text \<open>
  \<open>RerenderContent\<close> fails to return in two cases only: on a nil renderer when no new
  one is asked for, and in \<open>SetContent\<close> on a negative viewport height with the
  viewport scrolled.
\<close>

lemma Sync_of_SetContent_Inl:
  "SetContent s vp = Inr vp' \<Longrightarrow> Sync vp' = Inl p \<Longrightarrow> False"
  using Sync_after_SetContent(1) [of s vp vp'] by simp

lemma RerenderContent_Inl:
  assumes "RerenderContent e g m nf nt = Inl p"
  shows "(p = NilPointerDereference \<and> glamourRenderer g = None \<and> \<not> nt)
         \<or> (p = SliceBoundsOutOfRange \<and> cmdHeight m - headerHeight - footerHeight < 0
             \<and> 0 < YOffset (viewport m))"
  using assms
  by (auto simp: RerenderContent_def Let_def split_def Render_def useHighPerformanceRenderer_def
           split: if_splits option.splits sum.splits
           dest: SetContent_Inl Sync_of_SetContent_Inl
           dest: rerenderProjects_renderer(1))

lemma RerenderContent_returns:
  assumes "glamourRenderer g = Some r \<or> nt"
    and "0 \<le> cmdHeight m - headerHeight - footerHeight \<or> YOffset (viewport m) \<le> 0"
  shows "\<exists>m' g' c. RerenderContent e g m nf nt = Inr (m', g', c)"
proof (cases "RerenderContent e g m nf nt")
  case (Inl p)
  from RerenderContent_Inl [OF Inl] assms show ?thesis
    by auto
next
  case (Inr x)
  then show ?thesis
    by (cases x) auto
qed

text \<open>
  Without \<open>needsNewTerm\<close>, \<open>RerenderContent\<close> makes no renderer and converts no
  project block, but it converts the top and bottom sections again on the stored
  renderer.
\<close>

lemma RerenderContent_cached:
  assumes "RerenderContent e g m nf False = Inr (m', g', c)"
    and "glamourRenderer g = Some r"
  shows "g' = g\<lparr>renderCalls := renderCalls g @ [(r, top), (r, bot)]\<rparr>"
    and "c = Some (SyncScrollArea (viewport m'))"
    and "YOffset (viewport m') \<le> int (length (vpLines (viewport m')))"
    and "vpLines (viewport m') \<noteq> []"
  using assms
  by (auto simp: RerenderContent_def Let_def split_def Render_def useHighPerformanceRenderer_def
                 Split_not_Nil
           split: if_splits option.splits sum.splits
           dest: SetContent_Inr Sync_after_SetContent(1))

text \<open>
  With \<open>needsNewTerm\<close> and renderers that can be made, the block of lines 176 to 231
  stores the renderer of the fitted width, converts the four project blocks on the
  renderer of width \<open>r\<close> (half the width less 4 above 76 columns) and lays them out.
\<close>

lemma rerenderProjects_ok:
  assumes "newTermRendererOk e fw"
    and "76 < fw \<longrightarrow> newTermRendererOk e (fw div 2 - 4)"
    and "r = (if 76 < fw then fw div 2 - 4 else fw)"
  shows "fst (rerenderProjects e g fw) = False"
    and "glamourRenderer (snd (rerenderProjects e g fw)) = Some fw"
    and "lastFitWidth (snd (rerenderProjects e g fw)) = lastFitWidth g"
    and "renderCalls (snd (rerenderProjects e g fw))
           = renderCalls g @ [(r, prog1), (r, prog2), (r, prog3), (r, prog4)]"
    and "flex (snd (rerenderProjects e g fw))
           = (if fw < 80
              then JoinVertical e PosStart
                     [block e r prog1, block e r prog2, block e r prog3,
                      TrimSuffix (block e r prog4) [nl]]
              else JoinVertical e PosStart
                     [RowA (dualColumns e (block e r prog1) (block e r prog2)
                                          (block e r prog3) (block e r prog4)),
                      RowB (dualColumns e (block e r prog1) (block e r prog2)
                                          (block e r prog3) (block e r prog4))])"
    and "projRender3 (snd (rerenderProjects e g fw))
           = (if fw < 80 then block e r prog3 else TrimSuffix (block e r prog2) [nl])"
  using assms
  by (auto simp: rerenderProjects_def Let_def split_def Render_def block_def
        dualRender3_dualColumns)

lemma RerenderContent_new_term:
  assumes "RerenderContent e g m nf True = Inr (m', g', c)"
    and "newTermRendererOk e (fitWidth m)"
    and "76 < fitWidth m \<longrightarrow> newTermRendererOk e (fitWidth m div 2 - 4)"
  shows "glamourRenderer g' = Some (fitWidth m)"
    and "flex g' = flex (snd (rerenderProjects e g (fitWidth m)))"
    and "projRender3 g' = projRender3 (snd (rerenderProjects e g (fitWidth m)))"
    and "renderCalls g' = renderCalls (snd (rerenderProjects e g (fitWidth m)))
                            @ [(fitWidth m, top), (fitWidth m, bot)]"
    and "c = Some (SyncScrollArea (viewport m'))"
    and "YOffset (viewport m') \<le> int (length (vpLines (viewport m')))"
    and "vpLines (viewport m') \<noteq> []"
proof -
  have q: "fst (rerenderProjects e g (fitWidth m)) = False"
    and gr: "glamourRenderer (snd (rerenderProjects e g (fitWidth m))) = Some (fitWidth m)"
    using rerenderProjects_ok(1,2) [OF assms(2,3) refl, of g] by simp_all
  from assms(1) q gr
  have "glamourRenderer g' = Some (fitWidth m)
        \<and> flex g' = flex (snd (rerenderProjects e g (fitWidth m)))
        \<and> projRender3 g' = projRender3 (snd (rerenderProjects e g (fitWidth m)))
        \<and> renderCalls g' = renderCalls (snd (rerenderProjects e g (fitWidth m)))
                            @ [(fitWidth m, top), (fitWidth m, bot)]
        \<and> c = Some (SyncScrollArea (viewport m'))
        \<and> YOffset (viewport m') \<le> int (length (vpLines (viewport m')))
        \<and> vpLines (viewport m') \<noteq> []"
    by (auto simp: RerenderContent_def Let_def split_def Render_def
                   useHighPerformanceRenderer_def Split_not_Nil
             split: sum.splits
             dest: SetContent_Inr Sync_after_SetContent(1))
  then show "glamourRenderer g' = Some (fitWidth m)"
    and "flex g' = flex (snd (rerenderProjects e g (fitWidth m)))"
    and "projRender3 g' = projRender3 (snd (rerenderProjects e g (fitWidth m)))"
    and "renderCalls g' = renderCalls (snd (rerenderProjects e g (fitWidth m)))
                            @ [(fitWidth m, top), (fitWidth m, bot)]"
    and "c = Some (SyncScrollArea (viewport m'))"
    and "YOffset (viewport m') \<le> int (length (vpLines (viewport m')))"
    and "vpLines (viewport m') \<noteq> []"
    by auto
qed
section \<open>What a resize leaves in the state\<close>

text \<open>\<open>Update\<close> on a resize, as the sequence of its three steps.\<close>

lemma Update_resize_unfold:
  "Update e g m (WindowSizeMsg w h) =
     (case loadStep e (g\<lparr>lastFitWidth := fitWidth m\<rparr>) (resized m w h) of
        Inl p \<Rightarrow> Inl p
      | Inr (m2, g2, cmds) \<Rightarrow>
          (case RerenderContent e g2 m2 False (lastFitWidth g2 \<noteq> fitWidth m2) of
             Inl p \<Rightarrow> Inl p
           | Inr (m3, g3, c3) \<Rightarrow>
               (case Sync ((viewport m3)\<lparr>YPosition := headerHeight + 1\<rparr>) of
                  Inl p \<Rightarrow> Inl p
                | Inr s \<Rightarrow>
                    Inr (m3\<lparr>viewport := (viewport m3)\<lparr>YPosition := headerHeight + 1\<rparr>\<rparr>, g3,
                         Some (Batch (cmds @ [c3, s]))))))"
proof -
  have b: "(if c then RerenderContent e g2 m2 False True else RerenderContent e g2 m2 False False)
             = RerenderContent e g2 m2 False c" for c g2 m2
    by simp
  have l: "loaded (resized m w h) = loaded m"
    by (simp add: resized_def Let_def)
  show ?thesis
    unfolding loadStep_def l
    by (simp add: Update_def resized_def markLoaded_def Let_def useHighPerformanceRenderer_def b
             split: sum.splits prod.splits)
qed

lemma resized_fields:
  "fitWidth (resized m w h) = (if min w maxWidth < 80 then min w maxWidth - 4 else min w maxWidth)"
  "Height (viewport (resized m w h)) = h - headerHeight - footerHeight"
  "cmdWidth (resized m w h) = w" "cmdHeight (resized m w h) = h"
  "loaded (resized m w h) = loaded m"
  "YOffset (viewport (resized m w h)) = YOffset (viewport m)"
  "vpLines (viewport (resized m w h)) = vpLines (viewport m)"
  by (simp_all add: resized_def Let_def)

lemma markLoaded_fields:
  "fitWidth (markLoaded m) = fitWidth m" "Height (viewport (markLoaded m)) = Height (viewport m)"
  "cmdWidth (markLoaded m) = cmdWidth m" "cmdHeight (markLoaded m) = cmdHeight m"
  "loaded (markLoaded m)"
  "YOffset (viewport (markLoaded m)) = YOffset (viewport m)"
  "vpLines (viewport (markLoaded m)) = vpLines (viewport m)"
  by (simp_all add: markLoaded_def Let_def)

text \<open>The first step keeps the layout of the resized session and never unloads it.\<close>

lemma loadStep_Inr_all:
  assumes "loadStep e g m = Inr (m2, g2, cmds)"
    and "Height (viewport m) = cmdHeight m - headerHeight - footerHeight"
  shows "fitWidth m2 = fitWidth m \<and> cmdWidth m2 = cmdWidth m \<and> cmdHeight m2 = cmdHeight m
    \<and> Height (viewport m2) = cmdHeight m - headerHeight - footerHeight
    \<and> lastFitWidth g2 = lastFitWidth g
    \<and> (cmdHeight m - headerHeight - footerHeight < 0
           \<longrightarrow> YOffset (viewport m2) = YOffset (viewport m))
    \<and> (glamourRenderer g \<noteq> None \<longrightarrow> glamourRenderer g2 \<noteq> None)
    \<and> (YOffset (viewport m2) \<le> int (length (vpLines (viewport m2)))
         \<or> (YOffset (viewport m2) = YOffset (viewport m)
             \<and> vpLines (viewport m2) = vpLines (viewport m)))
    \<and> (loaded m \<longrightarrow> m2 = m \<and> g2 = g \<and> cmds = [])
    \<and> (\<not> loaded m \<longrightarrow> loaded m2)"
proof (cases "loaded m")
  case True
  with assms have e: "m2 = m" "g2 = g" "cmds = []"
    by (simp_all add: loadStep_def)
  show ?thesis
    using e assms(2) True by simp
next
  case False
  with assms(1) obtain c1 where
    r: "RerenderContent e g (markLoaded m) True True = Inr (m2, g2, c1)"
    by (auto simp: loadStep_def split: sum.splits)
  note f = RerenderContent_frame [OF r]
  have k: "glamourRenderer g \<noteq> None \<longrightarrow> glamourRenderer g2 \<noteq> None"
    using f(7) by auto
  show ?thesis
    using f(1,2,3,4,5,6,8,9) k False by (simp add: markLoaded_fields)
qed

lemma loadStep_Inr:
  assumes "loadStep e g m = Inr (m2, g2, cmds)"
    and "Height (viewport m) = cmdHeight m - headerHeight - footerHeight"
  shows "fitWidth m2 = fitWidth m" and "cmdWidth m2 = cmdWidth m" and "cmdHeight m2 = cmdHeight m"
    and "Height (viewport m2) = cmdHeight m - headerHeight - footerHeight"
    and "lastFitWidth g2 = lastFitWidth g"
    and "cmdHeight m - headerHeight - footerHeight < 0
           \<Longrightarrow> YOffset (viewport m2) = YOffset (viewport m)"
    and "glamourRenderer g = Some r \<Longrightarrow> glamourRenderer g2 \<noteq> None"
    and "YOffset (viewport m2) \<le> int (length (vpLines (viewport m2)))
         \<or> (YOffset (viewport m2) = YOffset (viewport m)
             \<and> vpLines (viewport m2) = vpLines (viewport m))"
    and "loaded m \<Longrightarrow> m2 = m \<and> g2 = g \<and> cmds = []"
    and "\<not> loaded m \<Longrightarrow> loaded m2"
  using loadStep_Inr_all [OF assms] by auto

lemma loadStep_Inl:
  assumes "loadStep e g m = Inl p"
  shows "p = SliceBoundsOutOfRange \<and> cmdHeight m - headerHeight - footerHeight < 0
         \<and> 0 < YOffset (viewport m) \<and> \<not> loaded m"
proof (cases "loaded m")
  case True
  with assms show ?thesis
    by (simp add: loadStep_def)
next
  case False
  with assms have "RerenderContent e g (markLoaded m) True True = Inl p"
    by (auto simp: loadStep_def split: sum.splits)
  from RerenderContent_Inl [OF this] False show ?thesis
    by (simp add: markLoaded_fields)
qed
lemma Update_resize_Inr:
  assumes "Update e g m (WindowSizeMsg w h) = Inr (m', g', c)"
  shows "\<exists>m2 g2 cmds m3 g3 c3 s.
           loadStep e (g\<lparr>lastFitWidth := fitWidth m\<rparr>) (resized m w h) = Inr (m2, g2, cmds)
           \<and> RerenderContent e g2 m2 False (lastFitWidth g2 \<noteq> fitWidth m2) = Inr (m3, g3, c3)
           \<and> Sync ((viewport m3)\<lparr>YPosition := headerHeight + 1\<rparr>) = Inr s
           \<and> m' = m3\<lparr>viewport := (viewport m3)\<lparr>YPosition := headerHeight + 1\<rparr>\<rparr>
           \<and> g' = g3 \<and> c = Some (Batch (cmds @ [c3, s]))"
  using assms unfolding Update_resize_unfold
  by (auto split: sum.splits prod.splits)

lemma Update_resize_Inl:
  assumes "Update e g m (WindowSizeMsg w h) = Inl p"
  shows "loadStep e (g\<lparr>lastFitWidth := fitWidth m\<rparr>) (resized m w h) = Inl p
         \<or> (\<exists>m2 g2 cmds.
               loadStep e (g\<lparr>lastFitWidth := fitWidth m\<rparr>) (resized m w h) = Inr (m2, g2, cmds)
               \<and> (RerenderContent e g2 m2 False (lastFitWidth g2 \<noteq> fitWidth m2) = Inl p
                   \<or> (\<exists>m3 g3 c3.
                         RerenderContent e g2 m2 False (lastFitWidth g2 \<noteq> fitWidth m2)
                           = Inr (m3, g3, c3)
                         \<and> Sync ((viewport m3)\<lparr>YPosition := headerHeight + 1\<rparr>) = Inl p)))"
  using assms unfolding Update_resize_unfold
  by (auto split: sum.splits prod.splits)

text \<open>
  When \<open>Update\<close> returns from a resize, the session has the layout of the new size.
\<close>

lemma Update_resize_layout:
  assumes "Update e g m (WindowSizeMsg w h) = Inr (m', g', c)"
  shows "Height (viewport m') = h - headerHeight - footerHeight"
    and "fitWidth m' = (if min w maxWidth < 80 then min w maxWidth - 4 else min w maxWidth)"
    and "cmdWidth m' = w" and "cmdHeight m' = h"
    and "YPosition (viewport m') = headerHeight + 1"
proof -
  from Update_resize_Inr [OF assms] obtain m2 g2 cmds m3 g3 c3 s where
    s1: "loadStep e (g\<lparr>lastFitWidth := fitWidth m\<rparr>) (resized m w h) = Inr (m2, g2, cmds)"
    and s2: "RerenderContent e g2 m2 False (lastFitWidth g2 \<noteq> fitWidth m2) = Inr (m3, g3, c3)"
    and m': "m' = m3\<lparr>viewport := (viewport m3)\<lparr>YPosition := headerHeight + 1\<rparr>\<rparr>"
    by blast
  have hr: "Height (viewport (resized m w h))
              = cmdHeight (resized m w h) - headerHeight - footerHeight"
    by (simp add: resized_fields)
  note a = loadStep_Inr [OF s1 hr] and b = RerenderContent_frame [OF s2]
  show "Height (viewport m') = h - headerHeight - footerHeight"
    using a(3) b(1) by (simp add: m' resized_fields)
  show "fitWidth m' = (if min w maxWidth < 80 then min w maxWidth - 4 else min w maxWidth)"
    using a(1) b(2) by (simp add: m' resized_fields)
  show "cmdWidth m' = w"
    using a(2) b(4) by (simp add: m' resized_fields)
  show "cmdHeight m' = h"
    using a(3) b(3) by (simp add: m' resized_fields)
  show "YPosition (viewport m') = headerHeight + 1"
    by (simp add: m')
qed

text \<open>
  \<open>Update\<close> fails to return from a resize only on a nil renderer, or with the viewport
  scrolled: on a terminal of fewer than 8 rows, where \<open>SetContent\<close> panics, or with an
  offset already past the viewport's lines, where \<open>viewport.Sync\<close> panics.
\<close>

lemma Update_resize_panic:
  assumes "Update e g m (WindowSizeMsg w h) = Inl p"
  shows "glamourRenderer g = None
         \<or> (0 < YOffset (viewport m)
             \<and> (h - headerHeight - footerHeight < 0
                 \<or> int (length (vpLines (viewport m))) < YOffset (viewport m)))"
proof -
  let ?g1 = "g\<lparr>lastFitWidth := fitWidth m\<rparr>"
  have hr: "Height (viewport (resized m w h))
              = cmdHeight (resized m w h) - headerHeight - footerHeight"
    by (simp add: resized_fields)
  from Update_resize_Inl [OF assms] consider
    (load) "loadStep e ?g1 (resized m w h) = Inl p"
    | (render) m2 g2 cmds where
        "loadStep e ?g1 (resized m w h) = Inr (m2, g2, cmds)"
        "RerenderContent e g2 m2 False (lastFitWidth g2 \<noteq> fitWidth m2) = Inl p"
    | (sync) m2 g2 cmds m3 g3 c3 where
        "loadStep e ?g1 (resized m w h) = Inr (m2, g2, cmds)"
        "RerenderContent e g2 m2 False (lastFitWidth g2 \<noteq> fitWidth m2) = Inr (m3, g3, c3)"
        "Sync ((viewport m3)\<lparr>YPosition := headerHeight + 1\<rparr>) = Inl p"
    by blast
  then show ?thesis
  proof cases
    case load
    from loadStep_Inl [OF load] show ?thesis
      by (simp add: resized_fields)
  next
    case render
    note a = loadStep_Inr [OF render(1) hr]
    from RerenderContent_Inl [OF render(2)] show ?thesis
    proof
      assume "p = NilPointerDereference \<and> glamourRenderer g2 = None
              \<and> \<not> lastFitWidth g2 \<noteq> fitWidth m2"
      then have "glamourRenderer g2 = None"
        by simp
      with a(7) [of "the (glamourRenderer g)"] have "glamourRenderer g = None"
        by (cases "glamourRenderer g") simp_all
      then show ?thesis
        by simp
    next
      assume s: "p = SliceBoundsOutOfRange \<and> cmdHeight m2 - headerHeight - footerHeight < 0
                 \<and> 0 < YOffset (viewport m2)"
      with a(3) have neg: "h - headerHeight - footerHeight < 0"
        by (simp add: resized_fields)
      with a(6) have "YOffset (viewport m2) = YOffset (viewport m)"
        by (simp add: resized_fields)
      with s neg show ?thesis
        by simp
    qed
  next
    case sync
    note a = loadStep_Inr [OF sync(1) hr] and b = RerenderContent_frame [OF sync(2)]
    from Sync_Inl [OF sync(3)]
    have past: "0 < YOffset (viewport m3)"
      "int (length (vpLines (viewport m3))) < YOffset (viewport m3)"
      by simp_all
    with b(9) have e3: "YOffset (viewport m3) = YOffset (viewport m2)"
      "vpLines (viewport m3) = vpLines (viewport m2)"
      by auto
    with past a(8) have "YOffset (viewport m2) = YOffset (viewport m)"
      "vpLines (viewport m2) = vpLines (viewport m)"
      by (auto simp: resized_fields)
    with past e3 show ?thesis
      by simp
  qed
qed

lemma Update_resize_returns:
  assumes "glamourRenderer g = Some r"
    and "YOffset (viewport m) \<le> 0
         \<or> (0 \<le> h - headerHeight - footerHeight
             \<and> YOffset (viewport m) \<le> int (length (vpLines (viewport m))))"
  shows "\<exists>m' g' c. Update e g m (WindowSizeMsg w h) = Inr (m', g', c)"
proof (cases "Update e g m (WindowSizeMsg w h)")
  case (Inl p)
  from Update_resize_panic [OF Inl] assms show ?thesis
    by auto
next
  case (Inr x)
  then show ?thesis
    by (cases x) auto
qed
section \<open>Re-rendering and the converter\<close>

text \<open>
  A resize of a loaded session that leaves the fitted width unchanged, with a renderer
  stored: what the state holds when \<open>Update\<close> returns, and when it does not return.
\<close>

lemma Update_same_width_Inr:
  assumes "loaded m" and "glamourRenderer g = Some r"
    and "(if min w maxWidth < 80 then min w maxWidth - 4 else min w maxWidth) = fitWidth m"
    and "Update e g m (WindowSizeMsg w h) = Inr (m', g', c)"
  shows "(\<exists>vp. c = Some (Batch [Some (SyncScrollArea vp), Some (SyncScrollArea (viewport m'))]))
         \<and> Sync (viewport m') = Inr (Some (SyncScrollArea (viewport m')))
         \<and> Height (viewport m') = h - headerHeight - footerHeight
         \<and> YPosition (viewport m') = headerHeight + 1
         \<and> fitWidth m' = fitWidth m
         \<and> renderCalls g' = renderCalls g @ [(r, top), (r, bot)]
         \<and> glamourRenderer g' = Some r
         \<and> projRender1 g' = projRender1 g \<and> projRender2 g' = projRender2 g
         \<and> projRender3 g' = projRender3 g \<and> projRender4 g' = projRender4 g
         \<and> flex g' = flex g"
proof -
  let ?g1 = "g\<lparr>lastFitWidth := fitWidth m\<rparr>"
  let ?m1 = "resized m w h"
  from Update_resize_Inr [OF assms(4)] obtain m2 g2 cmds m3 g3 c3 s where
    s1: "loadStep e ?g1 ?m1 = Inr (m2, g2, cmds)"
    and s2: "RerenderContent e g2 m2 False (lastFitWidth g2 \<noteq> fitWidth m2) = Inr (m3, g3, c3)"
    and s3: "Sync ((viewport m3)\<lparr>YPosition := headerHeight + 1\<rparr>) = Inr s"
    and m': "m' = m3\<lparr>viewport := (viewport m3)\<lparr>YPosition := headerHeight + 1\<rparr>\<rparr>"
    and g': "g' = g3" and c: "c = Some (Batch (cmds @ [c3, s]))"
    by blast
  have l1: "loaded ?m1"
    using assms(1) by (simp add: resized_fields)
  with s1 have e2: "m2 = ?m1" "g2 = ?g1" "cmds = []"
    by (simp_all add: loadStep_def)
  have nt: "fitWidth ?m1 = fitWidth m"
    using assms(3) by (simp add: resized_fields)
  have r1: "glamourRenderer ?g1 = Some r"
    using assms(2) by simp
  from s2 have s2': "RerenderContent e ?g1 ?m1 False False = Inr (m3, g3, c3)"
    by (simp add: e2 nt)
  note k = RerenderContent_cached [OF s2' r1] and f = RerenderContent_frame [OF s2']
  from Sync_in_range(2) [OF k(4) k(3), of "headerHeight + 1"] s3
  have s: "s = Some (SyncScrollArea (viewport m'))"
    by (simp add: m')
  have sy: "Sync (viewport m') = Inr (Some (SyncScrollArea (viewport m')))"
    using Sync_in_range(2) [OF k(4) k(3), of "headerHeight + 1"] by (simp add: m')
  have fm: "fitWidth m3 = fitWidth m"
    using f(2) by (simp add: nt)
  have hm: "Height (viewport m3) = h - headerHeight - footerHeight"
    using f(1) by (simp add: resized_fields)
  show ?thesis
    using k(1,2) fm hm s sy assms(2)
    by (simp add: m' g' c e2)
qed

lemma Update_same_width_Inl:
  assumes "loaded m" and "glamourRenderer g = Some r"
    and "(if min w maxWidth < 80 then min w maxWidth - 4 else min w maxWidth) = fitWidth m"
    and "Update e g m (WindowSizeMsg w h) = Inl p"
  shows "p = SliceBoundsOutOfRange \<and> h - headerHeight - footerHeight < 0
         \<and> 0 < YOffset (viewport m)"
proof -
  let ?g1 = "g\<lparr>lastFitWidth := fitWidth m\<rparr>"
  let ?m1 = "resized m w h"
  have l1: "loaded ?m1"
    using assms(1) by (simp add: resized_fields)
  have r1: "glamourRenderer ?g1 = Some r"
    using assms(2) by simp
  have ld: "loadStep e ?g1 ?m1 = Inr (?m1, ?g1, [])"
    using l1 by (simp add: loadStep_def)
  have nt: "fitWidth ?m1 = fitWidth m"
    using assms(3) by (simp add: resized_fields)
  from Update_resize_Inl [OF assms(4)] ld
  have "RerenderContent e ?g1 ?m1 False False = Inl p
        \<or> (\<exists>m3 g3 c3. RerenderContent e ?g1 ?m1 False False = Inr (m3, g3, c3)
               \<and> Sync ((viewport m3)\<lparr>YPosition := headerHeight + 1\<rparr>) = Inl p)"
    by (simp add: nt)
  then show ?thesis
  proof
    assume "RerenderContent e ?g1 ?m1 False False = Inl p"
    from RerenderContent_Inl [OF this] r1 show ?thesis
      by (simp add: resized_fields)
  next
    assume "\<exists>m3 g3 c3. RerenderContent e ?g1 ?m1 False False = Inr (m3, g3, c3)
               \<and> Sync ((viewport m3)\<lparr>YPosition := headerHeight + 1\<rparr>) = Inl p"
    then obtain m3 g3 c3 where
      a: "RerenderContent e ?g1 ?m1 False False = Inr (m3, g3, c3)"
      and b: "Sync ((viewport m3)\<lparr>YPosition := headerHeight + 1\<rparr>) = Inl p"
      by blast
    note k = RerenderContent_cached [OF a r1]
    from Sync_in_range(2) [OF k(4) k(3), of "headerHeight + 1"] b show ?thesis
      by simp
  qed
qed

text \<open>
  The first resize of a session loads it and stores the renderer of the fitted width,
  when the renderers can be made and the viewport is not scrolled on a terminal of fewer
  than 8 rows.
\<close>

lemma Update_first_load:
  assumes nl: "\<not> loaded m"
    and fw: "fw = (if min w maxWidth < 80 then min w maxWidth - 4 else min w maxWidth)"
    and ok1: "newTermRendererOk e fw"
    and ok2: "76 < fw \<longrightarrow> newTermRendererOk e (fw div 2 - 4)"
    and room: "0 \<le> h - headerHeight - footerHeight \<or> YOffset (viewport m) \<le> 0"
  shows "\<exists>m' g' c. Update e g m (WindowSizeMsg w h) = Inr (m', g', c)
          \<and> loaded m' \<and> fitWidth m' = fw \<and> glamourRenderer g' = Some fw
          \<and> cmdWidth m' = w \<and> cmdHeight m' = h"
proof -
  let ?g1 = "g\<lparr>lastFitWidth := fitWidth m\<rparr>"
  let ?m1 = "markLoaded (resized m w h)"
  have f1: "fitWidth ?m1 = fw" "cmdHeight ?m1 = h" "cmdWidth ?m1 = w"
    "YOffset (viewport ?m1) = YOffset (viewport m)" "loaded ?m1"
    by (simp_all add: markLoaded_fields resized_fields fw)
  have ok1': "newTermRendererOk e (fitWidth ?m1)"
    and ok2': "76 < fitWidth ?m1 \<longrightarrow> newTermRendererOk e (fitWidth ?m1 div 2 - 4)"
    using ok1 ok2 by (simp_all add: f1)
  have room1: "0 \<le> cmdHeight ?m1 - headerHeight - footerHeight \<or> YOffset (viewport ?m1) \<le> 0"
    using room by (simp add: f1)
  from RerenderContent_returns [OF _ room1, of ?g1 0 True e True]
  obtain m2 g2 c1 where
    a: "RerenderContent e ?g1 ?m1 True True = Inr (m2, g2, c1)"
    by auto
  note fa = RerenderContent_frame [OF a] and na = RerenderContent_new_term [OF a ok1' ok2']
  have g2r: "glamourRenderer g2 = Some fw"
    using na(1) by (simp add: f1)
  have m2f: "fitWidth m2 = fw" "cmdHeight m2 = h" "cmdWidth m2 = w" "loaded m2"
    using fa(2,3,4,5) by (simp_all add: f1)
  have ld: "loadStep e ?g1 (resized m w h) = Inr (m2, g2, [c1])"
    using nl a by (simp add: loadStep_def resized_fields)
  have room2: "0 \<le> cmdHeight m2 - headerHeight - footerHeight \<or> YOffset (viewport m2) \<le> 0"
  proof (cases "0 \<le> h - headerHeight - footerHeight")
    case True
    then show ?thesis
      by (simp add: m2f)
  next
    case False
    then have "cmdHeight ?m1 - headerHeight - footerHeight < 0"
      by (simp add: f1)
    from fa(6) [OF this] room False show ?thesis
      by (simp add: f1)
  qed
  let ?nt = "lastFitWidth g2 \<noteq> fitWidth m2"
  from RerenderContent_returns [OF _ room2, of g2 fw ?nt e False] g2r
  obtain m3 g3 c3 where
    b: "RerenderContent e g2 m2 False ?nt = Inr (m3, g3, c3)"
    by auto
  note fb = RerenderContent_frame [OF b]
  have k: "glamourRenderer g3 = Some fw
           \<and> YOffset (viewport m3) \<le> int (length (vpLines (viewport m3)))
           \<and> vpLines (viewport m3) \<noteq> []"
  proof (cases ?nt)
    case True
    with b have b': "RerenderContent e g2 m2 False True = Inr (m3, g3, c3)"
      by simp
    have o1: "newTermRendererOk e (fitWidth m2)"
      and o2: "76 < fitWidth m2 \<longrightarrow> newTermRendererOk e (fitWidth m2 div 2 - 4)"
      using ok1 ok2 by (simp_all add: m2f)
    from RerenderContent_new_term(1,6,7) [OF b' o1 o2] show ?thesis
      by (simp add: m2f)
  next
    case False
    with b have b': "RerenderContent e g2 m2 False False = Inr (m3, g3, c3)"
      by simp
    from RerenderContent_cached(1,3,4) [OF b' g2r] g2r show ?thesis
      by simp
  qed
  from k Sync_in_range(2) [of "viewport m3" "headerHeight + 1"]
  have sy: "Sync ((viewport m3)\<lparr>YPosition := headerHeight + 1\<rparr>)
              = Inr (Some (SyncScrollArea ((viewport m3)\<lparr>YPosition := headerHeight + 1\<rparr>)))"
    by simp
  have "Update e g m (WindowSizeMsg w h)
          = Inr (m3\<lparr>viewport := (viewport m3)\<lparr>YPosition := headerHeight + 1\<rparr>\<rparr>, g3,
                 Some (Batch ([c1] @ [c3, Some (SyncScrollArea
                                 ((viewport m3)\<lparr>YPosition := headerHeight + 1\<rparr>))])))"
    unfolding Update_resize_unfold by (simp add: ld b sy)
  moreover have "loaded m3" "fitWidth m3 = fw" "cmdWidth m3 = w" "cmdHeight m3 = h"
    using fb(2,3,4,5) by (simp_all add: m2f)
  ultimately show ?thesis
    using k by simp
qed

text \<open>
  The nil renderer is met on the first resize when the renderer cannot be made and the
  fitted width equals the estimate of \<open>teaHandler\<close>: the second call of
  \<open>RerenderContent\<close> skips the \<open>needsNewTerm\<close> block.
\<close>

lemma Update_first_resize_nil_renderer:
  "Update (plainExt\<lparr>newTermRendererOk := \<lambda>w. False\<rparr>) startGlobals (teaHandler 90 30)
      (WindowSizeMsg 90 30) = Inl NilPointerDereference"
  by (simp add: Update_def RerenderContent_def rerenderProjects_def teaHandler_def
        startGlobals_def plainExt_def maxWidth_def Let_def viewport_New_def)

text \<open>
  The panic in the viewport library is met: on a height below eight rows, a call of
  \<open>RerenderContent\<close> with the viewport scrolled to or past the last line of the content
  it sets (the content does not depend on the offset) does not return.
\<close>

lemma RerenderContent_scrolled_on_short_terminal:
  assumes "glamourRenderer g = Some r"
    and "cmdHeight m - headerHeight - footerHeight < 0"
    and "RerenderContent e g (m\<lparr>viewport := (viewport m)\<lparr>YOffset := 0\<rparr>\<rparr>) nf False
           = Inr (m0, g0, c0)"
    and "int (length (vpLines (viewport m0))) \<le> YOffset (viewport m)"
  shows "RerenderContent e g m nf False = Inl SliceBoundsOutOfRange"
proof -
  define vp where "vp = (viewport m)\<lparr>Height := cmdHeight m - headerHeight - footerHeight\<rparr>"
  define vp0 where
    "vp0 = (viewport m)\<lparr>YOffset := 0, Height := cmdHeight m - headerHeight - footerHeight\<rparr>"
  define g1 where "g1 = snd (Render e r bot (snd (Render e r top g)))"
  define cmb where "cmb = JoinVertical e PosStart
      [TrimPrefix (fst (fst (Render e r top g))) [nl], flex g1,
       TrimSuffix (fst (fst (Render e r bot (snd (Render e r top g))))) [nl],
       contact e ''email'' ''max@mmyron.com'', contact e ''twitter'' ''@mmorenthal'',
       contact e ''github'' ''maxmmyron'']"
  define container where "container = Place e (cmdWidth m) (Height vp) PosCenter PosStart cmb"
  have a: "RerenderContent e g m nf False
             = (case SetContent container vp of
                  Inl p \<Rightarrow> Inl p
                | Inr v \<Rightarrow> (case Sync v of Inl p \<Rightarrow> Inl p
                             | Inr c \<Rightarrow> Inr (m\<lparr>viewport := v\<rparr>, g1, c)))"
    using assms(1)
    by (simp add: RerenderContent_def Let_def split_def useHighPerformanceRenderer_def
          vp_def g1_def cmb_def container_def split: sum.splits)
  have b: "RerenderContent e g (m\<lparr>viewport := (viewport m)\<lparr>YOffset := 0\<rparr>\<rparr>) nf False
             = (case SetContent container vp0 of
                  Inl p \<Rightarrow> Inl p
                | Inr v \<Rightarrow> (case Sync v of Inl p \<Rightarrow> Inl p
                             | Inr c \<Rightarrow> Inr (m\<lparr>viewport := v\<rparr>, g1, c)))"
    using assms(1)
    by (simp add: RerenderContent_def Let_def split_def useHighPerformanceRenderer_def
          vp_def vp0_def g1_def cmb_def container_def split: sum.splits)
  from assms(3) [unfolded b] obtain v where
    v: "SetContent container vp0 = Inr v" and m0: "viewport m0 = v"
    by (auto split: sum.splits)
  from SetContent_Inr(5) [OF v] m0
  have len: "vpLines (viewport m0) = Split (normalizeLineEndings container) nl"
    by simp
  have "SetContent container vp = Inl SliceBoundsOutOfRange"
    using assms(2,4) len
    by (intro SetContent_panics) (simp_all add: vp_def)
  then show ?thesis
    by (simp add: a)
qed

lemma resized_at_offset_0:
  "resized (m\<lparr>viewport := (viewport m)\<lparr>YOffset := 0\<rparr>\<rparr>) w h
     = (resized m w h)\<lparr>viewport := (viewport (resized m w h))\<lparr>YOffset := 0\<rparr>\<rparr>"
  by (simp add: resized_def Let_def)

text \<open>
  The same for a resize of a loaded session that leaves the fitted width unchanged:
  scrolled to or past the last line of the content, a resize to fewer than eight rows
  panics.
\<close>

lemma Update_scrolled_on_short_terminal:
  assumes "loaded m" and "glamourRenderer g = Some r"
    and "(if min w maxWidth < 80 then min w maxWidth - 4 else min w maxWidth) = fitWidth m"
    and "h - headerHeight - footerHeight < 0"
    and "Update e g (m\<lparr>viewport := (viewport m)\<lparr>YOffset := 0\<rparr>\<rparr>) (WindowSizeMsg w h)
           = Inr (m0, g0, c0)"
    and "int (length (vpLines (viewport m0))) \<le> YOffset (viewport m)"
  shows "Update e g m (WindowSizeMsg w h) = Inl SliceBoundsOutOfRange"
proof -
  let ?g1 = "g\<lparr>lastFitWidth := fitWidth m\<rparr>"
  let ?m1 = "resized m w h"
  let ?m1z = "?m1\<lparr>viewport := (viewport ?m1)\<lparr>YOffset := 0\<rparr>\<rparr>"
  have r1: "glamourRenderer ?g1 = Some r"
    using assms(2) by simp
  have nt: "fitWidth ?m1 = fitWidth m"
    using assms(3) by (simp add: resized_fields)
  have short: "cmdHeight ?m1 - headerHeight - footerHeight < 0"
    using assms(4) by (simp add: resized_fields)
  from Update_resize_Inr [OF assms(5)] obtain m2 g2 cmds m3 g3 c3 s where
    s1: "loadStep e (g\<lparr>lastFitWidth := fitWidth (m\<lparr>viewport := (viewport m)\<lparr>YOffset := 0\<rparr>\<rparr>)\<rparr>)
           (resized (m\<lparr>viewport := (viewport m)\<lparr>YOffset := 0\<rparr>\<rparr>) w h) = Inr (m2, g2, cmds)"
    and s2: "RerenderContent e g2 m2 False (lastFitWidth g2 \<noteq> fitWidth m2) = Inr (m3, g3, c3)"
    and m0: "m0 = m3\<lparr>viewport := (viewport m3)\<lparr>YPosition := headerHeight + 1\<rparr>\<rparr>"
    by blast
  from s1 assms(1) have e2: "m2 = ?m1z" "g2 = ?g1"
    by (simp_all add: loadStep_def resized_at_offset_0 resized_fields)
  from s2 have z: "RerenderContent e ?g1 ?m1z False False = Inr (m3, g3, c3)"
    by (simp add: e2 nt)
  have len: "int (length (vpLines (viewport m3))) \<le> YOffset (viewport ?m1)"
    using assms(6) by (simp add: m0 resized_fields)
  have p: "RerenderContent e ?g1 ?m1 False False = Inl SliceBoundsOutOfRange"
    by (rule RerenderContent_scrolled_on_short_terminal [OF r1 short z len])
  have ld: "loadStep e ?g1 ?m1 = Inr (?m1, ?g1, [])"
    using assms(1) by (simp add: loadStep_def resized_fields)
  show ?thesis
    unfolding Update_resize_unfold by (simp add: ld nt p)
qed

text \<open>
  An instance: the loaded session on a terminal of 90 columns is resized to 85 by 5.
  From offset 0 the resize is handled; from the offset of the last line of that
  content it panics.
\<close>

lemma resize_to_five_rows_scrolled_panics:
  "\<exists>m0 g0 c0.
      Update plainExt wideGlobals wideSession (WindowSizeMsg 85 5) = Inr (m0, g0, c0)
      \<and> Update plainExt wideGlobals
           (wideSession\<lparr>viewport := (viewport wideSession)
                          \<lparr>YOffset := int (length (vpLines (viewport m0)))\<rparr>\<rparr>)
           (WindowSizeMsg 85 5) = Inl SliceBoundsOutOfRange"
proof -
  let ?s = "\<lambda>y. wideSession\<lparr>viewport := (viewport wideSession)\<lparr>YOffset := y\<rparr>\<rparr>"
  have h2: "glamourRenderer wideGlobals = Some 80"
    by (simp add: wideGlobals_def)
  have y0: "YOffset (viewport wideSession) \<le> 0
            \<or> (0 \<le> 5 - headerHeight - footerHeight
                \<and> YOffset (viewport wideSession) \<le> int (length (vpLines (viewport wideSession))))"
    by (simp add: wideSession_def)
  from Update_resize_returns [OF h2 y0, of plainExt 85]
  obtain m0 g0 c0 where
    u: "Update plainExt wideGlobals wideSession (WindowSizeMsg 85 5) = Inr (m0, g0, c0)"
    by blast
  have z: "(?s y)\<lparr>viewport := (viewport (?s y))\<lparr>YOffset := 0\<rparr>\<rparr> = wideSession" for y
    by (simp add: wideSession_def)
  have l: "loaded (?s y)" for y
    by (simp add: wideSession_def)
  have w: "(if min 85 maxWidth < 80 then min 85 maxWidth - 4 else min 85 maxWidth)
             = fitWidth (?s y)" for y
    by (simp add: wideSession_def maxWidth_def)
  have short: "5 - headerHeight - footerHeight < 0"
    by (simp add: headerHeight_def footerHeight_def)
  have u': "Update plainExt wideGlobals
              ((?s (int (length (vpLines (viewport m0)))))
                 \<lparr>viewport := (viewport (?s (int (length (vpLines (viewport m0))))))
                                 \<lparr>YOffset := 0\<rparr>\<rparr>)
              (WindowSizeMsg 85 5) = Inr (m0, g0, c0)"
    unfolding z by (rule u)
  have len: "int (length (vpLines (viewport m0)))
               \<le> YOffset (viewport (?s (int (length (vpLines (viewport m0))))))"
    by simp
  have "Update plainExt wideGlobals (?s (int (length (vpLines (viewport m0)))))
          (WindowSizeMsg 85 5) = Inl SliceBoundsOutOfRange"
    by (rule Update_scrolled_on_short_terminal [OF l h2 w short u' len])
  with u show ?thesis
    by (intro exI conjI)
qed

section \<open>Viewport height, fitted width and conversions on resize\<close>

text \<open>
  C3, as amended. The viewport height is the terminal height minus the header's and
  the footer's four rows, with no floor: \<open>teaHandler\<close> gives the viewport that height
  at initialization, \<open>RerenderContent\<close> sets it from the stored terminal height, and
  every resize that \<open>Update\<close> handles leaves it at that value. It is negative for a
  terminal of fewer than eight rows. The two functions fail to return only on a nil
  renderer or, with the viewport scrolled, in the viewport library: on a height below
  eight rows (\<open>SetContent\<close> moves to a bottom that lies past the content), or with an
  offset past the stored lines.
\<close>

theorem viewport_height_is_plain_difference:
  "Height (viewport (teaHandler w h)) = h - headerHeight - footerHeight
   \<and> (case RerenderContent e g m nf nt of
         Inl p \<Rightarrow>
           (p = NilPointerDereference \<and> glamourRenderer g = None \<and> \<not> nt)
           \<or> (p = SliceBoundsOutOfRange \<and> cmdHeight m - headerHeight - footerHeight < 0
               \<and> 0 < YOffset (viewport m))
       | Inr (m', g', c) \<Rightarrow> Height (viewport m') = cmdHeight m - headerHeight - footerHeight)
   \<and> (case Update e g m (WindowSizeMsg w h) of
         Inl p \<Rightarrow>
           glamourRenderer g = None
           \<or> (0 < YOffset (viewport m)
               \<and> (h - headerHeight - footerHeight < 0
                   \<or> int (length (vpLines (viewport m))) < YOffset (viewport m)))
       | Inr (m', g', c) \<Rightarrow> Height (viewport m') = h - headerHeight - footerHeight)"
proof (intro conjI)
  show "Height (viewport (teaHandler w h)) = h - headerHeight - footerHeight"
    by (simp add: teaHandler_def viewport_New_def Let_def)
next
  show "case RerenderContent e g m nf nt of
          Inl p \<Rightarrow>
            (p = NilPointerDereference \<and> glamourRenderer g = None \<and> \<not> nt)
            \<or> (p = SliceBoundsOutOfRange \<and> cmdHeight m - headerHeight - footerHeight < 0
                \<and> 0 < YOffset (viewport m))
        | Inr (m', g', c) \<Rightarrow> Height (viewport m') = cmdHeight m - headerHeight - footerHeight"
  proof (cases "RerenderContent e g m nf nt")
    case (Inl p)
    from RerenderContent_Inl [OF Inl] show ?thesis
      by (simp add: Inl)
  next
    case (Inr x)
    obtain m' g' c where x: "x = (m', g', c)"
      by (cases x)
    from RerenderContent_frame(1) [OF Inr [unfolded x]] show ?thesis
      by (simp add: Inr x)
  qed
next
  show "case Update e g m (WindowSizeMsg w h) of
          Inl p \<Rightarrow>
            glamourRenderer g = None
            \<or> (0 < YOffset (viewport m)
                \<and> (h - headerHeight - footerHeight < 0
                    \<or> int (length (vpLines (viewport m))) < YOffset (viewport m)))
        | Inr (m', g', c) \<Rightarrow> Height (viewport m') = h - headerHeight - footerHeight"
  proof (cases "Update e g m (WindowSizeMsg w h)")
    case (Inl p)
    from Update_resize_panic [OF Inl] show ?thesis
      by (simp add: Inl)
  next
    case (Inr x)
    obtain m' g' c where x: "x = (m', g', c)"
      by (cases x)
    from Update_resize_layout(1) [OF Inr [unfolded x]] show ?thesis
      by (simp add: Inr x)
  qed
qed

text \<open>
  C3 as stated fails: on a terminal of five rows the viewport height is \<open>-3\<close>, not
  floored at 0, both in the state \<open>teaHandler\<close> makes and after the first resize.
\<close>

theorem viewport_height_negative_on_short_terminal:
  "Height (viewport (teaHandler 80 5)) = - 3
   \<and> (\<exists>m' g' c. Update plainExt startGlobals (teaHandler 80 5) (WindowSizeMsg 80 5)
                     = Inr (m', g', c)
          \<and> Height (viewport m') = - 3)"
proof
  show "Height (viewport (teaHandler 80 5)) = - 3"
    by (simp add: teaHandler_def viewport_New_def Let_def headerHeight_def footerHeight_def)
next
  have n: "\<not> loaded (teaHandler 80 5)"
    by (simp add: teaHandler_def Let_def)
  have fw: "(80::int) = (if min 80 maxWidth < 80 then min 80 maxWidth - 4 else min 80 maxWidth)"
    by (simp add: maxWidth_def)
  have ok: "newTermRendererOk plainExt 80"
    "76 < (80::int) \<longrightarrow> newTermRendererOk plainExt (80 div 2 - 4)"
    by (simp_all add: plainExt_def)
  have room: "0 \<le> 5 - headerHeight - footerHeight \<or> YOffset (viewport (teaHandler 80 5)) \<le> 0"
    by (simp add: teaHandler_def viewport_New_def Let_def)
  from Update_first_load [OF n fw ok room, of startGlobals]
  obtain m' g' c where
    u: "Update plainExt startGlobals (teaHandler 80 5) (WindowSizeMsg 80 5) = Inr (m', g', c)"
    by blast
  from Update_resize_layout [OF u]
  have "Height (viewport m') = - 3"
    by (simp add: headerHeight_def footerHeight_def)
  with u show "\<exists>m' g' c. Update plainExt startGlobals (teaHandler 80 5) (WindowSizeMsg 80 5)
                     = Inr (m', g', c)
          \<and> Height (viewport m') = - 3"
    by (intro exI conjI)
qed

text \<open>
  C4, as amended. \<open>teaHandler\<close> sets the fitted width to \<open>min(w, 80)\<close> with no margin;
  every resize that \<open>Update\<close> handles sets it to \<open>min(w, 80)\<close>, less the margin of 4
  when that is below 80. Neither exceeds 80. \<open>Update\<close> fails to return only on a nil
  renderer or, with the viewport scrolled, in the viewport library: on a height below
  eight rows, or with an offset past the stored lines.
\<close>

theorem fitted_width_margin_on_resize_only:
  "fitWidth (teaHandler w h) = min w maxWidth
   \<and> fitWidth (teaHandler w h) \<le> 80
   \<and> (case Update e g m (WindowSizeMsg w h) of
         Inl p \<Rightarrow>
           glamourRenderer g = None
           \<or> (0 < YOffset (viewport m)
               \<and> (h - headerHeight - footerHeight < 0
                   \<or> int (length (vpLines (viewport m))) < YOffset (viewport m)))
       | Inr (m', g', c) \<Rightarrow>
           fitWidth m' = (if min w maxWidth < 80 then min w maxWidth - 4 else min w maxWidth)
           \<and> fitWidth m' \<le> 80)"
proof (intro conjI)
  show "fitWidth (teaHandler w h) = min w maxWidth"
    by (simp add: teaHandler_def Let_def)
  show "fitWidth (teaHandler w h) \<le> 80"
    by (simp add: teaHandler_def Let_def maxWidth_def)
  show "case Update e g m (WindowSizeMsg w h) of
          Inl p \<Rightarrow>
            glamourRenderer g = None
            \<or> (0 < YOffset (viewport m)
                \<and> (h - headerHeight - footerHeight < 0
                    \<or> int (length (vpLines (viewport m))) < YOffset (viewport m)))
        | Inr (m', g', c) \<Rightarrow>
            fitWidth m' = (if min w maxWidth < 80 then min w maxWidth - 4 else min w maxWidth)
            \<and> fitWidth m' \<le> 80"
  proof (cases "Update e g m (WindowSizeMsg w h)")
    case (Inl p)
    from Update_resize_panic [OF Inl] show ?thesis
      by (simp add: Inl)
  next
    case (Inr x)
    obtain m' g' c where x: "x = (m', g', c)"
      by (cases x)
    note f = Update_resize_layout(2) [OF Inr [unfolded x]]
    have "fitWidth m' \<le> 80"
      unfolding f by (auto simp: maxWidth_def)
    with f show ?thesis
      by (simp add: Inr x)
  qed
qed

text \<open>
  C4 as stated fails at initialization: for a terminal of 70 columns \<open>teaHandler\<close>
  gives the fitted width 70, where the claim's rule (margin subtracted below 80)
  gives 66.
\<close>

theorem teaHandler_subtracts_no_margin:
  "fitWidth (teaHandler 70 24) = 70
   \<and> fitWidth (teaHandler 70 24) \<noteq> (if min 70 maxWidth < 80 then min 70 maxWidth - 4 else min 70 maxWidth)"
  by (simp add: teaHandler_def Let_def maxWidth_def)

text \<open>
  C2, as amended. For a loaded session whose renderer is stored, a resize that leaves
  the fitted width unchanged and that \<open>Update\<close> handles to the end updates the viewport
  height and the scroll geometry and emits the synchronization command; it makes no
  renderer and converts none of the four cached project blocks (they and their layout
  stay as they are), but it does call the converter twice, for the top and the bottom
  section, on the stored renderer. \<open>Update\<close> fails to return only when the new
  height is below eight rows and the viewport is scrolled: \<open>SetContent\<close> then panics
  in the viewport library if the offset is at or past the last line of the content.
\<close>

theorem resize_same_width_converts_top_and_bottom_only:
  assumes "loaded m" and "glamourRenderer g = Some r"
    and "(if min w maxWidth < 80 then min w maxWidth - 4 else min w maxWidth) = fitWidth m"
  shows "case Update e g m (WindowSizeMsg w h) of
           Inl p \<Rightarrow>
             p = SliceBoundsOutOfRange \<and> h - headerHeight - footerHeight < 0
             \<and> 0 < YOffset (viewport m)
         | Inr (m', g', c) \<Rightarrow>
             (\<exists>vp. c = Some (Batch [Some (SyncScrollArea vp),
                                    Some (SyncScrollArea (viewport m'))]))
             \<and> Sync (viewport m') = Inr (Some (SyncScrollArea (viewport m')))
             \<and> Height (viewport m') = h - headerHeight - footerHeight
             \<and> YPosition (viewport m') = headerHeight + 1
             \<and> fitWidth m' = fitWidth m
             \<and> renderCalls g' = renderCalls g @ [(r, top), (r, bot)]
             \<and> glamourRenderer g' = Some r
             \<and> projRender1 g' = projRender1 g \<and> projRender2 g' = projRender2 g
             \<and> projRender3 g' = projRender3 g \<and> projRender4 g' = projRender4 g
             \<and> flex g' = flex g"
proof (cases "Update e g m (WindowSizeMsg w h)")
  case (Inl p)
  from Update_same_width_Inl [OF assms Inl] show ?thesis
    by (simp add: Inl)
next
  case (Inr x)
  obtain m' g' c where x: "x = (m', g', c)"
    by (cases x)
  from Update_same_width_Inr [OF assms Inr [unfolded x]] show ?thesis
    by (simp add: Inr x)
qed

theorem resize_same_width_witness:
  "loaded wideSession \<and> glamourRenderer wideGlobals = Some 80
   \<and> (if min 85 maxWidth < 80 then min 85 maxWidth - 4 else min 85 maxWidth) = fitWidth wideSession
   \<and> (\<exists>m' g' vp. Update plainExt wideGlobals wideSession (WindowSizeMsg 85 25)
            = Inr (m', g', Some (Batch [Some (SyncScrollArea vp),
                                        Some (SyncScrollArea (viewport m'))]))
          \<and> Height (viewport m') = 17
          \<and> renderCalls g' = [(80, top), (80, bot)]
          \<and> flex g' = flex wideGlobals)"
proof -
  have h1: "loaded wideSession"
    by (simp add: wideSession_def)
  have h2: "glamourRenderer wideGlobals = Some 80"
    by (simp add: wideGlobals_def)
  have h3: "(if min 85 maxWidth < 80 then min 85 maxWidth - 4 else min 85 maxWidth)
              = fitWidth wideSession"
    by (simp add: wideSession_def maxWidth_def)
  have rc: "renderCalls wideGlobals = []"
    by (simp add: wideGlobals_def)
  note t = resize_same_width_converts_top_and_bottom_only
             [OF h1 h2 h3, where e = plainExt and h = 25]
  have "\<exists>m' g' vp. Update plainExt wideGlobals wideSession (WindowSizeMsg 85 25)
            = Inr (m', g', Some (Batch [Some (SyncScrollArea vp),
                                        Some (SyncScrollArea (viewport m'))]))
          \<and> Height (viewport m') = 17
          \<and> renderCalls g' = [(80, top), (80, bot)]
          \<and> flex g' = flex wideGlobals"
  proof (cases "Update plainExt wideGlobals wideSession (WindowSizeMsg 85 25)")
    case (Inl p)
    with t show ?thesis
      by (simp add: headerHeight_def footerHeight_def)
  next
    case (Inr x)
    obtain m' g' c where x: "x = (m', g', c)"
      by (cases x)
    from t obtain vp where
      "c = Some (Batch [Some (SyncScrollArea vp), Some (SyncScrollArea (viewport m'))])"
      "Height (viewport m') = 25 - headerHeight - footerHeight"
      "renderCalls g' = renderCalls wideGlobals @ [(80, top), (80, bot)]"
      "flex g' = flex wideGlobals"
      by (auto simp: Inr x)
    then show ?thesis
      by (simp add: Inr x rc headerHeight_def footerHeight_def)
  qed
  with h1 h2 h3 show ?thesis
    by (intro conjI)
qed

text \<open>
  C2 as stated fails. A terminal of 90 by 30 connects and is resized to 85 columns:
  the fitted width stays 80, and handling the resize calls the converter twice more
  (top and bottom section on the renderer of width 80).
\<close>

theorem resize_90_to_85_calls_converter:
  "\<exists>m1 g1 c1 m2 g2 c2.
      Update plainExt startGlobals (teaHandler 90 30) (WindowSizeMsg 90 30) = Inr (m1, g1, c1)
      \<and> Update plainExt g1 m1 (WindowSizeMsg 85 30) = Inr (m2, g2, c2)
      \<and> fitWidth m1 = 80 \<and> fitWidth m2 = 80
      \<and> renderCalls g2 = renderCalls g1 @ [(80, top), (80, bot)]
      \<and> renderCalls g2 \<noteq> renderCalls g1"
proof -
  have nl: "\<not> loaded (teaHandler 90 30)"
    by (simp add: teaHandler_def Let_def)
  have fw: "(80::int) = (if min 90 maxWidth < 80 then min 90 maxWidth - 4 else min 90 maxWidth)"
    by (simp add: maxWidth_def)
  have ok: "newTermRendererOk plainExt 80" "76 < (80::int) \<longrightarrow> newTermRendererOk plainExt (80 div 2 - 4)"
    by (simp_all add: plainExt_def)
  have room: "0 \<le> 30 - headerHeight - footerHeight \<or> YOffset (viewport (teaHandler 90 30)) \<le> 0"
    by (simp add: headerHeight_def footerHeight_def)
  from Update_first_load [OF nl fw ok room, of startGlobals]
  obtain m1 g1 c1 where
    s1: "Update plainExt startGlobals (teaHandler 90 30) (WindowSizeMsg 90 30) = Inr (m1, g1, c1)"
    and l1: "loaded m1" and f1: "fitWidth m1 = 80" and r1: "glamourRenderer g1 = Some 80"
    by blast
  have w2: "(if min 85 maxWidth < 80 then min 85 maxWidth - 4 else min 85 maxWidth) = fitWidth m1"
    by (simp add: f1 maxWidth_def)
  have "\<exists>m2 g2 c2. Update plainExt g1 m1 (WindowSizeMsg 85 30) = Inr (m2, g2, c2)"
  proof (cases "Update plainExt g1 m1 (WindowSizeMsg 85 30)")
    case (Inl p)
    from Update_same_width_Inl [OF l1 r1 w2 Inl] show ?thesis
      by (simp add: headerHeight_def footerHeight_def)
  next
    case (Inr x)
    obtain m2 g2 c2 where x: "x = (m2, g2, c2)"
      by (cases x)
    from Inr show ?thesis
      unfolding x by (intro exI)
  qed
  then obtain m2 g2 c2 where
    s2: "Update plainExt g1 m1 (WindowSizeMsg 85 30) = Inr (m2, g2, c2)"
    by (elim exE)
  from Update_same_width_Inr [OF l1 r1 w2 s2]
  have f2: "fitWidth m2 = fitWidth m1"
    and rc: "renderCalls g2 = renderCalls g1 @ [(80, top), (80, bot)]"
    by simp_all
  from rc have "renderCalls g2 \<noteq> renderCalls g1"
    by simp
  with s1 s2 f1 f2 rc show ?thesis
    by auto
qed

section \<open>The second row of the two-column layout\<close>

text \<open>
  C1. In the two-column branch line 218 overwrites the third block with the second, so
  the second row's height is measured on the second and fourth blocks. With a third
  block of three lines beside one-line blocks, the second row's height is 0 while the
  larger of the third and fourth blocks' counts is 2; the first row is measured on
  its own two members. On the plain terminal at the fitted width 80 the third block
  the program stores is the second project's text.
\<close>

theorem second_row_height_measures_second_block:
  "rowBHeight (dualColumns plainExt ''a'' ''b'' (Join [''c1'', ''c2'', ''c3''] nl) ''d'') = 0
   \<and> max (Count (Join [''c1'', ''c2'', ''c3''] nl) nl) (Count ''d'' nl) = 2
   \<and> dualRender3 (dualColumns plainExt ''a'' ''b'' (Join [''c1'', ''c2'', ''c3''] nl) ''d'') = ''b''
   \<and> rowAHeight (dualColumns plainExt ''a'' ''b'' (Join [''c1'', ''c2'', ''c3''] nl) ''d'')
       = max (Count ''a'' nl) (Count ''b'' nl)
   \<and> projRender3 (snd (rerenderProjects plainExt startGlobals 80)) = TrimSuffix prog2 [nl]"
proof -
  have a: "rowBHeight (dualColumns plainExt ''a'' ''b'' (Join [''c1'', ''c2'', ''c3''] nl) ''d'') = 0
   \<and> max (Count (Join [''c1'', ''c2'', ''c3''] nl) nl) (Count ''d'' nl) = 2
   \<and> dualRender3 (dualColumns plainExt ''a'' ''b'' (Join [''c1'', ''c2'', ''c3''] nl) ''d'') = ''b''
   \<and> rowAHeight (dualColumns plainExt ''a'' ''b'' (Join [''c1'', ''c2'', ''c3''] nl) ''d'')
       = max (Count ''a'' nl) (Count ''b'' nl)"
    by code_simp
  have ok: "newTermRendererOk plainExt 80"
    "76 < (80::int) \<longrightarrow> newTermRendererOk plainExt (80 div 2 - 4)"
    by (simp_all add: plainExt_def)
  have r: "(36::int) = (if 76 < (80::int) then 80 div 2 - 4 else 80)"
    by simp
  have "projRender3 (snd (rerenderProjects plainExt startGlobals 80))
          = (if (80::int) < 80 then block plainExt 36 prog3
             else TrimSuffix (block plainExt 36 prog2) [nl])"
    by (rule rerenderProjects_ok(6) [OF ok r])
  then have b: "projRender3 (snd (rerenderProjects plainExt startGlobals 80))
                  = TrimSuffix prog2 [nl]"
    by (simp add: block_plainExt)
  from a b show ?thesis
    by (elim conjE) (intro conjI)
qed

section \<open>Column mode at the width threshold\<close>

text \<open>The two rows of the two-column branch, written out (lines 218 to 230).\<close>

lemma RowA_dualColumns:
  "RowA (dualColumns e p1 p2 p3 p4)
     = JoinHorizontal e PosStart [p1, gapRender e 4 (max (Count p1 nl) (Count p2 nl)), p2]"
  by (simp add: dualColumns_def Let_def)

lemma RowB_dualColumns:
  "RowB (dualColumns e p1 p2 p3 p4)
     = JoinHorizontal e PosStart
         [TrimSuffix p2 [nl],
          gapRender e 4 (max (Count (TrimSuffix p2 [nl]) nl) (Count (TrimSuffix p4 [nl]) nl)),
          TrimSuffix p4 [nl]]"
  by (simp add: dualColumns_def Let_def)

lemma rerenderProjects_flex_79:
  assumes "newTermRendererOk e 79" and "newTermRendererOk e 35"
  shows "flex (snd (rerenderProjects e g 79))
           = JoinVertical e PosStart
               [block e 35 prog1, block e 35 prog2, block e 35 prog3,
                TrimSuffix (block e 35 prog4) [nl]]"
proof -
  have r: "(35::int) = (if 76 < (79::int) then 79 div 2 - 4 else 79)"
    by simp
  have o: "76 < (79::int) \<longrightarrow> newTermRendererOk e (79 div 2 - 4)"
    using assms(2) by simp
  have "flex (snd (rerenderProjects e g 79))
          = (if (79::int) < 80
             then JoinVertical e PosStart
                    [block e 35 prog1, block e 35 prog2, block e 35 prog3,
                     TrimSuffix (block e 35 prog4) [nl]]
             else JoinVertical e PosStart
                    [RowA (dualColumns e (block e 35 prog1) (block e 35 prog2)
                                         (block e 35 prog3) (block e 35 prog4)),
                     RowB (dualColumns e (block e 35 prog1) (block e 35 prog2)
                                         (block e 35 prog3) (block e 35 prog4))])"
    by (rule rerenderProjects_ok(5) [OF assms(1) o r])
  then show ?thesis
    by simp
qed

lemma rerenderProjects_flex_80:
  assumes "newTermRendererOk e 80" and "newTermRendererOk e 36"
  shows "flex (snd (rerenderProjects e g 80))
           = JoinVertical e PosStart
               [JoinHorizontal e PosStart
                  [block e 36 prog1,
                   gapRender e 4 (max (Count (block e 36 prog1) nl) (Count (block e 36 prog2) nl)),
                   block e 36 prog2],
                JoinHorizontal e PosStart
                  [TrimSuffix (block e 36 prog2) [nl],
                   gapRender e 4 (max (Count (TrimSuffix (block e 36 prog2) [nl]) nl)
                                      (Count (TrimSuffix (block e 36 prog4) [nl]) nl)),
                   TrimSuffix (block e 36 prog4) [nl]]]"
proof -
  have r: "(36::int) = (if 76 < (80::int) then 80 div 2 - 4 else 80)"
    by simp
  have o: "76 < (80::int) \<longrightarrow> newTermRendererOk e (80 div 2 - 4)"
    using assms(2) by simp
  have "flex (snd (rerenderProjects e g 80))
          = (if (80::int) < 80
             then JoinVertical e PosStart
                    [block e 36 prog1, block e 36 prog2, block e 36 prog3,
                     TrimSuffix (block e 36 prog4) [nl]]
             else JoinVertical e PosStart
                    [RowA (dualColumns e (block e 36 prog1) (block e 36 prog2)
                                         (block e 36 prog3) (block e 36 prog4)),
                     RowB (dualColumns e (block e 36 prog1) (block e 36 prog2)
                                         (block e 36 prog3) (block e 36 prog4))])"
    by (rule rerenderProjects_ok(5) [OF assms(1) o r])
  then show ?thesis
    by (simp add: RowA_dualColumns RowB_dualColumns)
qed

text \<open>
  What \<open>RerenderContent\<close> with \<open>needsNewTerm\<close> leaves in \<open>flex\<close> at a fitted width
  whose renderers can be made, when it returns; it fails to return only in the viewport
  library, on a height below eight rows with the viewport scrolled.
\<close>

lemma RerenderContent_flex:
  assumes "newTermRendererOk e fw" and "76 < fw \<longrightarrow> newTermRendererOk e (fw div 2 - 4)"
  shows "case RerenderContent e g (m\<lparr>fitWidth := fw\<rparr>) nf True of
           Inl p \<Rightarrow> p = SliceBoundsOutOfRange \<and> cmdHeight m - headerHeight - footerHeight < 0
                     \<and> 0 < YOffset (viewport m)
         | Inr (m', g', c) \<Rightarrow> flex g' = flex (snd (rerenderProjects e g fw))"
proof (cases "RerenderContent e g (m\<lparr>fitWidth := fw\<rparr>) nf True")
  case (Inl p)
  from RerenderContent_Inl [OF Inl] show ?thesis
    by (simp add: Inl)
next
  case (Inr x)
  obtain m' g' c where x: "x = (m', g', c)"
    by (cases x)
  have a: "newTermRendererOk e (fitWidth (m\<lparr>fitWidth := fw\<rparr>))"
    using assms(1) by simp
  have b: "76 < fitWidth (m\<lparr>fitWidth := fw\<rparr>)
             \<longrightarrow> newTermRendererOk e (fitWidth (m\<lparr>fitWidth := fw\<rparr>) div 2 - 4)"
    using assms(2) by simp
  from RerenderContent_new_term(2) [OF Inr [unfolded x] a b] show ?thesis
    by (simp add: Inr x)
qed

text \<open>
  C7. With a fitted width of 79 the four blocks are stacked vertically; with a fitted
  width of 80 the layout is two rows, stacked, each a horizontal join of two blocks
  around a gap as high as the taller of the two. The first row pairs the first block
  with the second; the second row pairs the second block's text (line 218 stores it in
  place of the third) with the fourth. At both widths the blocks are converted on the
  half-width renderer, as the width is above 76. \<open>RerenderContent\<close> fails to return
  only in the viewport library, on a height below eight rows with the viewport
  scrolled.
\<close>

theorem column_mode_threshold:
  assumes "newTermRendererOk e 79" and "newTermRendererOk e 35"
    and "newTermRendererOk e 80" and "newTermRendererOk e 36"
  shows "(case RerenderContent e g (m\<lparr>fitWidth := 79\<rparr>) nf True of
            Inl p \<Rightarrow> p = SliceBoundsOutOfRange \<and> cmdHeight m - headerHeight - footerHeight < 0
                      \<and> 0 < YOffset (viewport m)
          | Inr (m', g', c) \<Rightarrow>
              flex g' = JoinVertical e PosStart
                          [block e 35 prog1, block e 35 prog2, block e 35 prog3,
                           TrimSuffix (block e 35 prog4) [nl]])
       \<and> (case RerenderContent e g (m\<lparr>fitWidth := 80\<rparr>) nf True of
            Inl p \<Rightarrow> p = SliceBoundsOutOfRange \<and> cmdHeight m - headerHeight - footerHeight < 0
                      \<and> 0 < YOffset (viewport m)
          | Inr (m', g', c) \<Rightarrow>
              flex g' = JoinVertical e PosStart
                          [JoinHorizontal e PosStart
                             [block e 36 prog1,
                              gapRender e 4 (max (Count (block e 36 prog1) nl)
                                                 (Count (block e 36 prog2) nl)),
                              block e 36 prog2],
                           JoinHorizontal e PosStart
                             [TrimSuffix (block e 36 prog2) [nl],
                              gapRender e 4 (max (Count (TrimSuffix (block e 36 prog2) [nl]) nl)
                                                 (Count (TrimSuffix (block e 36 prog4) [nl]) nl)),
                              TrimSuffix (block e 36 prog4) [nl]]])"
proof -
  have o79: "76 < (79::int) \<longrightarrow> newTermRendererOk e (79 div 2 - 4)"
    using assms(2) by simp
  have o80: "76 < (80::int) \<longrightarrow> newTermRendererOk e (80 div 2 - 4)"
    using assms(4) by simp
  note s = RerenderContent_flex [OF assms(1) o79, where g = g and m = m and nf = nf,
             unfolded rerenderProjects_flex_79 [OF assms(1,2)]]
  note d = RerenderContent_flex [OF assms(3) o80, where g = g and m = m and nf = nf,
             unfolded rerenderProjects_flex_80 [OF assms(3,4)]]
  from s d show ?thesis
    by (rule conjI)
qed

theorem column_mode_threshold_witness:
  "newTermRendererOk plainExt 79 \<and> newTermRendererOk plainExt 35
   \<and> newTermRendererOk plainExt 80 \<and> newTermRendererOk plainExt 36
   \<and> (\<exists>m' g' c. RerenderContent plainExt startGlobals (wideSession\<lparr>fitWidth := 79\<rparr>) False True
                    = Inr (m', g', c)
            \<and> flex g' = JoinVertical plainExt PosStart
                           [prog1, prog2, prog3, TrimSuffix prog4 [nl]])
   \<and> (\<exists>m' g' c. RerenderContent plainExt startGlobals (wideSession\<lparr>fitWidth := 80\<rparr>) False True
                    = Inr (m', g', c)
            \<and> flex g' = JoinVertical plainExt PosStart
                           [JoinHorizontal plainExt PosStart
                              [prog1,
                               gapRender plainExt 4 (max (Count prog1 nl) (Count prog2 nl)),
                               prog2],
                            JoinHorizontal plainExt PosStart
                              [TrimSuffix prog2 [nl],
                               gapRender plainExt 4 (max (Count (TrimSuffix prog2 [nl]) nl)
                                                         (Count (TrimSuffix prog4 [nl]) nl)),
                               TrimSuffix prog4 [nl]]])"
proof -
  have ok: "newTermRendererOk plainExt 79" "newTermRendererOk plainExt 35"
    "newTermRendererOk plainExt 80" "newTermRendererOk plainExt 36"
    by (simp_all add: plainExt_def)
  have tall: "\<not> cmdHeight wideSession - headerHeight - footerHeight < 0"
    by (simp add: wideSession_def headerHeight_def footerHeight_def)
  note t = column_mode_threshold [OF ok, where g = startGlobals and m = wideSession and nf = False,
             unfolded block_plainExt]
  have s: "\<exists>m' g' c. RerenderContent plainExt startGlobals (wideSession\<lparr>fitWidth := 79\<rparr>) False True
                    = Inr (m', g', c)
            \<and> flex g' = JoinVertical plainExt PosStart
                           [prog1, prog2, prog3, TrimSuffix prog4 [nl]]"
  proof (cases "RerenderContent plainExt startGlobals (wideSession\<lparr>fitWidth := 79\<rparr>) False True")
    case (Inl p)
    with t tall show ?thesis
      by simp
  next
    case (Inr x)
    obtain m' g' c where x: "x = (m', g', c)"
      by (cases x)
    from t show ?thesis
      by (simp add: Inr x)
  qed
  have d: "\<exists>m' g' c. RerenderContent plainExt startGlobals (wideSession\<lparr>fitWidth := 80\<rparr>) False True
                    = Inr (m', g', c)
            \<and> flex g' = JoinVertical plainExt PosStart
                           [JoinHorizontal plainExt PosStart
                              [prog1,
                               gapRender plainExt 4 (max (Count prog1 nl) (Count prog2 nl)),
                               prog2],
                            JoinHorizontal plainExt PosStart
                              [TrimSuffix prog2 [nl],
                               gapRender plainExt 4 (max (Count (TrimSuffix prog2 [nl]) nl)
                                                         (Count (TrimSuffix prog4 [nl]) nl)),
                               TrimSuffix prog4 [nl]]]"
  proof (cases "RerenderContent plainExt startGlobals (wideSession\<lparr>fitWidth := 80\<rparr>) False True")
    case (Inl p)
    with t tall show ?thesis
      by simp
  next
    case (Inr x)
    obtain m' g' c where x: "x = (m', g', c)"
      by (cases x)
    from t show ?thesis
      by (simp add: Inr x)
  qed
  from ok s d show ?thesis
    by (intro conjI)
qed

section \<open>The header\<close>

lemma truncateHeader_panics:
  "w < 4 \<Longrightarrow> w < int (length s) \<Longrightarrow> truncateHeader s w = Inl SliceBoundsOutOfRange"
  by (simp add: truncateHeader_def sliceTo_def)

lemma truncateHeader_returns:
  "4 \<le> w \<or> int (length s) \<le> w \<Longrightarrow> \<exists>t. truncateHeader s w = Inr t"
  by (auto simp: truncateHeader_def sliceTo_def)

text \<open>
  Both headers panic exactly on narrow fitted widths: below 10 columns in the first
  program and below 21 in the second, once the styled text is longer than the budget.
\<close>

lemma HeaderView_narrow:
  "fitWidth m < 10 \<Longrightarrow> fitWidth m - 6 < int (length (ApplyNormal e ''mmyron.com/''))
     \<Longrightarrow> HeaderView e m = Inl SliceBoundsOutOfRange"
  by (simp add: HeaderView_def Let_def truncateHeader_panics)

lemma HeaderView_wide:
  "10 \<le> fitWidth m \<Longrightarrow> \<exists>s. HeaderView e m = Inr s"
  using truncateHeader_returns [of "fitWidth m - 6" "ApplyNormal e ''mmyron.com/''"]
  by (auto simp: HeaderView_def Let_def)

text \<open>
  C10. The truncation is not in bounds for every state: with a fitted width below 10
  (first program) or below 21 (second program) the column budget is below 4, the header
  text is longer than the budget, and the slice bound \<open>budget - 4\<close> is negative. It
  happens in the state \<open>teaHandler\<close> makes for a terminal of 9 columns, after a resize
  to 13 columns (fitted width 9), and in the second program at a fitted width of 20.
\<close>

theorem HeaderView_panics_on_narrow_terminal:
  "HeaderView plainExt (teaHandler 9 24) = Inl SliceBoundsOutOfRange
   \<and> (\<exists>m' g' c. Update plainExt startGlobals (teaHandler 80 24) (WindowSizeMsg 13 24)
                     = Inr (m', g', c)
          \<and> fitWidth m' = 9 \<and> HeaderView plainExt m' = Inl SliceBoundsOutOfRange)
   \<and> HeaderView2 plainExt (rootSession\<lparr>fitWidth := 20\<rparr>) = Inl SliceBoundsOutOfRange"
proof (intro conjI)
  show "HeaderView plainExt (teaHandler 9 24) = Inl SliceBoundsOutOfRange"
    by (simp add: HeaderView_def teaHandler_def plainExt_def truncateHeader_def sliceTo_def
          maxWidth_def Let_def)
next
  have n: "\<not> loaded (teaHandler 80 24)"
    by (simp add: teaHandler_def Let_def)
  have fw: "(9::int) = (if min 13 maxWidth < 80 then min 13 maxWidth - 4 else min 13 maxWidth)"
    by (simp add: maxWidth_def)
  have ok: "newTermRendererOk plainExt 9"
    "76 < (9::int) \<longrightarrow> newTermRendererOk plainExt (9 div 2 - 4)"
    by (simp_all add: plainExt_def)
  have room: "0 \<le> 24 - headerHeight - footerHeight \<or> YOffset (viewport (teaHandler 80 24)) \<le> 0"
    by (simp add: headerHeight_def footerHeight_def)
  from Update_first_load [OF n fw ok room, of startGlobals]
  obtain m' g' c where
    u: "Update plainExt startGlobals (teaHandler 80 24) (WindowSizeMsg 13 24) = Inr (m', g', c)"
    and f: "fitWidth m' = 9"
    by blast
  have "HeaderView plainExt m' = Inl SliceBoundsOutOfRange"
    by (rule HeaderView_narrow) (simp_all add: f plainExt_def)
  with u f show "\<exists>m' g' c. Update plainExt startGlobals (teaHandler 80 24) (WindowSizeMsg 13 24)
                     = Inr (m', g', c)
          \<and> fitWidth m' = 9 \<and> HeaderView plainExt m' = Inl SliceBoundsOutOfRange"
    by (intro exI conjI)
next
  show "HeaderView2 plainExt (rootSession\<lparr>fitWidth := 20\<rparr>) = Inl SliceBoundsOutOfRange"
    by (simp add: HeaderView2_def plainExt_def rootSession_def truncateHeader_def sliceTo_def
          Let_def)
qed

section \<open>The second program: entering the list and selecting a post\<close>

lemma SetYOffset_zero: "SetYOffset 0 vp = vp\<lparr>YOffset := 0\<rparr>"
  by (simp add: SetYOffset_def clamp_def maxYOffset_def)

lemma SetContent_empty:
  "YOffset vp = 0 \<Longrightarrow> SetContent [] vp = Inr (vp\<lparr>vpLines := [[]]\<rparr>)"
  by (simp add: SetContent_def Let_def)

text \<open>
  On the list, \<open>Rerender\<close> clears the viewport to a zero-size region with the empty
  content at offset 0, and returns the synchronization command of the cleared viewport.
\<close>

lemma Rerender_posts:
  assumes "currentPath m = ''/posts''"
  shows "Rerender e g m nf
           = Inr (m\<lparr>viewport := (viewport m)\<lparr>YOffset := 0, Width := 0, Height := 0, vpLines := [[]]\<rparr>\<rparr>,
              g,
              Some (SyncScrollArea ((viewport m)\<lparr>YOffset := 0, Width := 0, Height := 0, vpLines := [[]]\<rparr>)))"
  using assms
  by (simp add: Rerender_def Let_def SetYOffset_zero SetContent_empty Sync_def
        visibleLines_def sliceLines_def clamp_def useHighPerformanceRenderer_def)

lemma rerenderKey_posts:
  assumes "currentPath m = ''/posts''"
  shows "rerenderKey e g m nf
           = Inr (m\<lparr>viewport := (viewport m)\<lparr>YOffset := 0, Width := 0, Height := 0, vpLines := [[]]\<rparr>\<rparr>,
              g,
              Some (Batch
                [Some (SyncScrollArea ((viewport m)\<lparr>YOffset := 0, Width := 0, Height := 0, vpLines := [[]]\<rparr>)),
                 Some (SyncScrollArea ((viewport m)\<lparr>YOffset := 0, Width := 0, Height := 0, vpLines := [[]]\<rparr>))]))"
  by (simp add: rerenderKey_def finish_def Rerender_posts [OF assms])

lemma Update2_p:
  assumes "currentPath m = ''/root''"
  shows "Update2 e g m (KeyMsg ''p'')
          = rerenderKey e g (m\<lparr>currentPath := ''/posts''\<rparr>) False"
  using assms by (simp add: Update2_def)

lemma Update2_p_result:
  assumes "currentPath m = ''/root''"
  shows "Update2 e g m (KeyMsg ''p'')
           = Inr (m\<lparr>currentPath := ''/posts'',
                     viewport := (viewport m)\<lparr>YOffset := 0, Width := 0, Height := 0, vpLines := [[]]\<rparr>\<rparr>,
                  g,
                  Some (Batch
                    [Some (SyncScrollArea ((viewport m)\<lparr>YOffset := 0, Width := 0, Height := 0, vpLines := [[]]\<rparr>)),
                     Some (SyncScrollArea ((viewport m)\<lparr>YOffset := 0, Width := 0, Height := 0, vpLines := [[]]\<rparr>))]))"
  by (simp add: Update2_p [OF assms] rerenderKey_posts)

text \<open>
  \<open>Rerender\<close> and a resize never change the current path; the only key that takes a
  session from elsewhere onto the list is \<open>p\<close> at the root.
\<close>

lemma Rerender_currentPath:
  "Rerender e g m nf = Inr (m', g', c) \<Longrightarrow> currentPath m' = currentPath m"
  by (auto simp: Rerender_def Let_def split_def useHighPerformanceRenderer_def
           split: if_splits option.splits sum.splits)

lemma rerenderKey_currentPath:
  "rerenderKey e g m nf = Inr (m', g', c) \<Longrightarrow> currentPath m' = currentPath m"
  by (auto simp: rerenderKey_def finish_def Let_def split: prod.splits if_splits sum.splits
           dest: Rerender_currentPath)

lemma Update2_resize_currentPath:
  "Update2 e g m (WindowSizeMsg w h) = Inr (m', g', c) \<Longrightarrow> currentPath m' = currentPath m"
  by (auto simp: Update2_def Let_def useHighPerformanceRenderer_def
           split: prod.splits if_splits sum.splits dest!: Rerender_currentPath)

lemma Update2_key_into_posts:
  assumes "Update2 e g m (KeyMsg k) = Inr (m', g', c)"
    and "currentPath m \<noteq> ''/posts''" and "currentPath m' = ''/posts''"
  shows "k = ''p'' \<and> currentPath m = ''/root''"
  using assms
  by (auto simp: Update2_def finish_def Let_def
           split: if_splits prod.splits option.splits dest: rerenderKey_currentPath)

text \<open>
  C8. Every update step that takes the session from another location onto the list
  (current path \<open>/posts\<close>) leaves the viewport cleared to width 0, height 0, empty
  content (the one empty line of the empty string) and offset 0, and the step's batch
  holds the viewport synchronization command of the cleared viewport
  (high-performance rendering is a constant of the program, and it is on).
\<close>

theorem entering_list_clears_viewport_and_syncs:
  assumes "Update2 e g m message = Inr (m', g', c)"
    and "currentPath m \<noteq> ''/posts''"
    and "currentPath m' = ''/posts''"
  shows "Width (viewport m') = 0 \<and> Height (viewport m') = 0
         \<and> YOffset (viewport m') = 0 \<and> vpLines (viewport m') = Split [] nl
         \<and> useHighPerformanceRenderer
         \<and> Sync (viewport m') = Inr (Some (SyncScrollArea (viewport m')))
         \<and> c = Some (Batch [Some (SyncScrollArea (viewport m')),
                              Some (SyncScrollArea (viewport m'))])"
proof (cases message)
  case (WindowSizeMsg w h)
  with assms(1) have "currentPath m' = currentPath m"
    by (simp add: Update2_resize_currentPath)
  with assms(2,3) show ?thesis
    by simp
next
  case (KeyMsg k)
  with assms have k: "k = ''p''" and r: "currentPath m = ''/root''"
    using Update2_key_into_posts [of e g m k m' g' c] by simp_all
  from assms(1) KeyMsg k Update2_p_result [OF r, of e g]
  have "m' = m\<lparr>currentPath := ''/posts'',
                 viewport := (viewport m)\<lparr>YOffset := 0, Width := 0, Height := 0, vpLines := [[]]\<rparr>\<rparr>"
    and "c = Some (Batch
                    [Some (SyncScrollArea ((viewport m)\<lparr>YOffset := 0, Width := 0, Height := 0, vpLines := [[]]\<rparr>)),
                     Some (SyncScrollArea ((viewport m)\<lparr>YOffset := 0, Width := 0, Height := 0, vpLines := [[]]\<rparr>))])"
    by simp_all
  then show ?thesis
    by (simp add: Sync_def visibleLines_def sliceLines_def clamp_def
          useHighPerformanceRenderer_def)
next
  case OtherMsg
  with assms(1) have "m' = m"
    by (simp add: Update2_def finish_def)
  with assms(2,3) show ?thesis
    by simp
qed

text \<open>
  The step exists: at the root, with the viewport scrolled to offset 3 over forty
  lines, the key \<open>p\<close> gives the cleared viewport and the batch of its synchronization
  command.
\<close>

theorem entering_list_witness:
  "(Update2 plainExt startGlobals2 rootSession (KeyMsg ''p'')
      = Inr (rootSession\<lparr>currentPath := ''/posts'',
                 viewport := (viewport rootSession)\<lparr>YOffset := 0, Width := 0, Height := 0, vpLines := [[]]\<rparr>\<rparr>,
             startGlobals2,
             Some (Batch
               [Some (SyncScrollArea ((viewport rootSession)\<lparr>YOffset := 0, Width := 0, Height := 0, vpLines := [[]]\<rparr>)),
                Some (SyncScrollArea ((viewport rootSession)\<lparr>YOffset := 0, Width := 0, Height := 0, vpLines := [[]]\<rparr>))]))
    \<and> currentPath rootSession \<noteq> ''/posts''
    \<and> YOffset (viewport rootSession) = 3 \<and> Height (viewport rootSession) = 22)
   \<and> (Width (viewport (rootSession\<lparr>currentPath := ''/posts'',
                 viewport := (viewport rootSession)\<lparr>YOffset := 0, Width := 0, Height := 0, vpLines := [[]]\<rparr>\<rparr>)) = 0
      \<and> Height (viewport (rootSession\<lparr>currentPath := ''/posts'',
                 viewport := (viewport rootSession)\<lparr>YOffset := 0, Width := 0, Height := 0, vpLines := [[]]\<rparr>\<rparr>)) = 0
      \<and> YOffset (viewport (rootSession\<lparr>currentPath := ''/posts'',
                 viewport := (viewport rootSession)\<lparr>YOffset := 0, Width := 0, Height := 0, vpLines := [[]]\<rparr>\<rparr>)) = 0)"
proof -
  let ?m = "rootSession\<lparr>currentPath := ''/posts'',
                viewport := (viewport rootSession)\<lparr>YOffset := 0, Width := 0, Height := 0, vpLines := [[]]\<rparr>\<rparr>"
  have r: "currentPath rootSession = ''/root''"
    by (simp add: rootSession_def)
  have h1: "Update2 plainExt startGlobals2 rootSession (KeyMsg ''p'')
     = Inr (?m, startGlobals2,
            Some (Batch
              [Some (SyncScrollArea ((viewport rootSession)\<lparr>YOffset := 0, Width := 0, Height := 0, vpLines := [[]]\<rparr>)),
               Some (SyncScrollArea ((viewport rootSession)\<lparr>YOffset := 0, Width := 0, Height := 0, vpLines := [[]]\<rparr>))]))"
    by (rule Update2_p_result [OF r])
  have h2: "currentPath rootSession \<noteq> ''/posts''"
    by (simp add: r)
  have h3: "currentPath ?m = ''/posts''"
    by simp
  have y: "YOffset (viewport rootSession) = 3" "Height (viewport rootSession) = 22"
    by (simp_all add: rootSession_def)
  from entering_list_clears_viewport_and_syncs [OF h1 h2 h3]
  have "Width (viewport ?m) = 0 \<and> Height (viewport ?m) = 0 \<and> YOffset (viewport ?m) = 0"
    by (elim conjE) (intro conjI)
  with h1 h2 y show ?thesis
    by (intro conjI) (elim conjE, assumption)+
qed

text \<open>
  Selecting a post whose file cannot be read: \<open>Rerender\<close> returns \<open>tea.Quit\<close> (line
  616), whether or not the renderer could be made, and the current path stays at the
  selected post's path.
\<close>

lemma Update2_enter_missing_file:
  assumes "currentPath m = ''/posts''"
    and "SelectedItem (posts m) = Some p"
    and "path p \<noteq> ''/posts''"
    and "ReadFile e (''fs'' @ path p @ ''.md'') = None"
  shows "Update2 e g m (KeyMsg ''enter'')
           = Inr (m\<lparr>currentPath := path p,
                     viewport := (viewport m)\<lparr>Height := cmdHeight m - headerHeight - footerHeight\<rparr>\<rparr>,
                  if newTermRendererOk e (fitWidth m)
                  then g\<lparr>glamourRenderer := Some (fitWidth m)\<rparr> else g,
                  Some (Batch [Some Quit, Some Quit]))"
  using assms
  by (simp add: Update2_def rerenderKey_def finish_def Rerender_def Let_def)

text \<open>
  C6, as amended. When the user selects a post from the list and its file cannot be
  read, the update step returns the quit command (the session is terminated cleanly,
  without a panic); the current path is the selected post's path, not the root, and
  the loaded content is unchanged.
\<close>

theorem selecting_missing_post_quits:
  assumes "currentPath m = ''/posts''"
    and "SelectedItem (posts m) = Some p"
    and "path p \<noteq> ''/posts''"
    and "ReadFile e (''fs'' @ path p @ ''.md'') = None"
  shows "\<exists>m' g'. Update2 e g m (KeyMsg ''enter'')
            = Inr (m', g', Some (Batch [Some Quit, Some Quit]))
          \<and> currentPath m' = path p \<and> content m' = content m \<and> loaded m' = loaded m"
proof -
  let ?m = "m\<lparr>currentPath := path p,
               viewport := (viewport m)\<lparr>Height := cmdHeight m - headerHeight - footerHeight\<rparr>\<rparr>"
  let ?g = "if newTermRendererOk e (fitWidth m)
            then g\<lparr>glamourRenderer := Some (fitWidth m)\<rparr> else g"
  have "Update2 e g m (KeyMsg ''enter'') = Inr (?m, ?g, Some (Batch [Some Quit, Some Quit]))
        \<and> currentPath ?m = path p \<and> content ?m = content m \<and> loaded ?m = loaded m"
    by (simp add: Update2_enter_missing_file [OF assms])
  then show ?thesis
    by (intro exI)
qed

lemma listSession_facts:
  "currentPath listSession = ''/posts''"
  "SelectedItem (posts listSession) = Some gradientsPost"
  "path gradientsPost \<noteq> ''/posts''"
  "ReadFile plainExt (''fs'' @ path gradientsPost @ ''.md'') = None"
  by (simp_all add: listSession_def SelectedItem_def gradientsPost_def plainExt_def)

theorem selecting_missing_post_witness:
  "(currentPath listSession = ''/posts''
    \<and> SelectedItem (posts listSession) = Some gradientsPost
    \<and> path gradientsPost \<noteq> ''/posts''
    \<and> ReadFile plainExt (''fs'' @ path gradientsPost @ ''.md'') = None)
   \<and> (\<exists>m' g'. Update2 plainExt startGlobals2 listSession (KeyMsg ''enter'')
            = Inr (m', g', Some (Batch [Some Quit, Some Quit]))
          \<and> currentPath m' = path gradientsPost \<and> content m' = content listSession
          \<and> loaded m' = loaded listSession)"
proof (rule conjI)
  show "currentPath listSession = ''/posts''
    \<and> SelectedItem (posts listSession) = Some gradientsPost
    \<and> path gradientsPost \<noteq> ''/posts''
    \<and> ReadFile plainExt (''fs'' @ path gradientsPost @ ''.md'') = None"
    by (intro conjI listSession_facts)
next
  show "\<exists>m' g'. Update2 plainExt startGlobals2 listSession (KeyMsg ''enter'')
            = Inr (m', g', Some (Batch [Some Quit, Some Quit]))
          \<and> currentPath m' = path gradientsPost \<and> content m' = content listSession
          \<and> loaded m' = loaded listSession"
    by (rule selecting_missing_post_quits [OF listSession_facts])
qed

text \<open>
  C6 as stated fails. On the list with the repository's post selected, whose file the
  store does not hold under the path the program asks for, \<open>enter\<close> returns the quit
  command and leaves the current path at the post's path: the session does not go
  back to the root and does not continue.
\<close>

theorem selecting_missing_post_does_not_return_to_root:
  "\<exists>m' g'. Update2 plainExt startGlobals2 listSession (KeyMsg ''enter'')
              = Inr (m', g', Some (Batch [Some Quit, Some Quit]))
        \<and> currentPath m' = ''fs/postsgradients.md''
        \<and> currentPath m' \<noteq> ''/root''"
proof -
  let ?m = "listSession\<lparr>currentPath := path gradientsPost,
               viewport := (viewport listSession)
                 \<lparr>Height := cmdHeight listSession - headerHeight - footerHeight\<rparr>\<rparr>"
  let ?g = "if newTermRendererOk plainExt (fitWidth listSession)
            then startGlobals2\<lparr>glamourRenderer := Some (fitWidth listSession)\<rparr>
            else startGlobals2"
  have p: "path gradientsPost = ''fs/postsgradients.md''"
    by (simp add: gradientsPost_def)
  have "Update2 plainExt startGlobals2 listSession (KeyMsg ''enter'')
          = Inr (?m, ?g, Some (Batch [Some Quit, Some Quit]))
        \<and> currentPath ?m = ''fs/postsgradients.md''
        \<and> currentPath ?m \<noteq> ''/root''"
    by (simp add: Update2_enter_missing_file [OF listSession_facts] p)
  then show ?thesis
    by (intro exI)
qed

end
